theory Spec2Isabelle
  imports Complex_Main "HOL-Library.AList" "HOL-Library.Log_Nat"
begin

section \<open>Python values\<close>

text \<open>
  A Python \<open>str\<close> is modelled as a \<open>string\<close>: one \<open>char\<close> stands for one code point
  (so only code points below 256 occur), and \<open>length\<close> is Python's \<open>len\<close>.

  A Python \<open>float\<close> is a finite value (a rational number), an infinity or NaN.
  Comparisons of floats are exact; a comparison with NaN is false.
\<close>

datatype pyfloat = Finite rat | PosInf | NegInf | NaN

fun float_gt :: "pyfloat \<Rightarrow> pyfloat \<Rightarrow> bool" where
  "float_gt (Finite a) (Finite b) = (b < a)"
| "float_gt (Finite a) NegInf = True"
| "float_gt PosInf (Finite b) = True"
| "float_gt PosInf NegInf = True"
| "float_gt _ _ = False"

definition lower_char :: "char \<Rightarrow> char" where
  "lower_char c =
     (let n = (of_char c :: nat)
      in if (65 \<le> n \<and> n \<le> 90) \<or> (192 \<le> n \<and> n \<le> 222 \<and> n \<noteq> 215)
         then char_of (n + 32) else c)"

definition py_lower :: "string \<Rightarrow> string" where
  "py_lower s = map lower_char s"

definition is_space :: "char \<Rightarrow> bool" where
  "is_space c =
     (let n = (of_char c :: nat)
      in (9 \<le> n \<and> n \<le> 13) \<or> (28 \<le> n \<and> n \<le> 32) \<or> n = 133 \<or> n = 160)"

definition py_strip :: "string \<Rightarrow> string" where
  "py_strip s = rev (dropWhile is_space (rev (dropWhile is_space s)))"

text \<open>
  Values decoded from JSON, which is what the analyzers send: a dictionary is an
  association list with distinct keys, read with \<open>map_of\<close>.
\<close>

datatype json =
    JNull
  | JBool bool
  | JInt int
  | JFloat pyfloat
  | JStr string
  | JList "json list"
  | JDict "(string \<times> json) list"

text \<open>
  The exceptions the modelled code can raise. Every \<open>except Exception\<close> of the source
  catches all of them alike.
\<close>

datatype pyerr = TypeError | AttributeError | ValueError | OverflowError | ZeroDivisionError

definition ebind :: "pyerr + 'a \<Rightarrow> ('a \<Rightarrow> pyerr + 'b) \<Rightarrow> pyerr + 'b" where
  "ebind m f = (case m of Inl e \<Rightarrow> Inl e | Inr x \<Rightarrow> f x)"

definition dict_get :: "(string \<times> json) list \<Rightarrow> string \<Rightarrow> json \<Rightarrow> json" where
  "dict_get d k dflt = (case map_of d k of Some v \<Rightarrow> v | None \<Rightarrow> dflt)"

fun truthy :: "json \<Rightarrow> bool" where
  "truthy JNull = False"
| "truthy (JBool b) = b"
| "truthy (JInt i) = (i \<noteq> 0)"
| "truthy (JFloat x) = (x \<noteq> Finite 0)"
| "truthy (JStr s) = (s \<noteq> [])"
| "truthy (JList xs) = (xs \<noteq> [])"
| "truthy (JDict d) = (d \<noteq> [])"

definition py_or :: "json \<Rightarrow> json \<Rightarrow> json" where
  "py_or a b = (if truthy a then a else b)"

text \<open>\<open>for x in v\<close>: the items, or \<open>None\<close> when \<open>v\<close> is not iterable (a TypeError).\<close>

fun py_iter :: "json \<Rightarrow> json list option" where
  "py_iter (JList xs) = Some xs"
| "py_iter (JStr s) = Some (map (\<lambda>c. JStr [c]) s)"
| "py_iter (JDict d) = Some (map (\<lambda>kv. JStr (fst kv)) d)"
| "py_iter _ = None"

text \<open>\<open>v.lower()\<close>: only a \<open>str\<close> has the method.\<close>

fun str_lower :: "json \<Rightarrow> pyerr + string" where
  "str_lower (JStr s) = Inr (py_lower s)"
| "str_lower _ = Inl AttributeError"

text \<open>
  \<open>v[:n]\<close>: a \<open>str\<close> and a list are sliced; nothing else decoded from JSON supports
  the slice (for a \<open>dict\<close> the exception is a TypeError before Python 3.12 and a
  KeyError from then on).
\<close>

fun py_slice_to :: "nat \<Rightarrow> json \<Rightarrow> pyerr + json" where
  "py_slice_to n (JStr s) = Inr (JStr (take n s))"
| "py_slice_to n (JList xs) = Inr (JList (take n xs))"
| "py_slice_to n _ = Inl TypeError"

text \<open>\<open>v += s\<close> for a \<open>str\<close> \<open>s\<close>: a list is extended by the characters of \<open>s\<close>.\<close>

fun py_iadd_str :: "json \<Rightarrow> string \<Rightarrow> pyerr + json" where
  "py_iadd_str (JStr d) s = Inr (JStr (d @ s))"
| "py_iadd_str (JList xs) s = Inr (JList (xs @ map (\<lambda>c. JStr [c]) s))"
| "py_iadd_str _ s = Inl TypeError"

text \<open>
  \<open>table.get(v, dflt)\<close> on a dictionary with \<open>str\<close> keys: a list or a dictionary is
  unhashable, every other value that is not a \<open>str\<close> equals no key.
\<close>

fun table_get :: "(string \<times> string) list \<Rightarrow> json \<Rightarrow> string \<Rightarrow> pyerr + string" where
  "table_get tbl (JStr s) dflt = Inr (case map_of tbl s of Some v \<Rightarrow> v | None \<Rightarrow> dflt)"
| "table_get tbl (JList xs) dflt = Inl TypeError"
| "table_get tbl (JDict d) dflt = Inl TypeError"
| "table_get tbl _ dflt = Inr dflt"

text \<open>\<open>':' in v\<close>.\<close>

fun contains_colon :: "json \<Rightarrow> pyerr + bool" where
  "contains_colon (JStr s) = Inr (CHR '':'' \<in> set s)"
| "contains_colon (JList xs) = Inr (JStr '':'' \<in> set xs)"
| "contains_colon (JDict d) = Inr ('':'' \<in> set (map fst d))"
| "contains_colon _ = Inl TypeError"

text \<open>\<open>s.split(':')[-1]\<close>: what follows the last colon.\<close>

definition last_segment :: "string \<Rightarrow> string" where
  "last_segment s = rev (takeWhile (\<lambda>c. c \<noteq> CHR '':'') (rev s))"

subsection \<open>Floating-point arithmetic\<close>

text \<open>
  The nearest double of a rational number, ties to the even significand: 53 significant
  bits, the least exponent of a subnormal is \<open>-1074\<close>, and a result of \<open>2 ^ 1024\<close> or
  more is an infinity.
\<close>

definition round_half_even :: "rat \<Rightarrow> int" where
  "round_half_even x =
     (let f = \<lfloor>x\<rfloor>; d = x - of_int f
      in if d < 1 / 2 then f else if 1 / 2 < d then f + 1
         else if even f then f else f + 1)"

definition pow2 :: "int \<Rightarrow> rat" where
  "pow2 e = (if 0 \<le> e then 2 ^ nat e else 1 / 2 ^ nat (- e))"

text \<open>For \<open>0 < x\<close>: the \<open>e\<close> with \<open>2 ^ e \<le> x < 2 ^ (e + 1)\<close>.\<close>

definition floor_log2 :: "rat \<Rightarrow> int" where
  "floor_log2 x =
     (case quotient_of x of (a, b) \<Rightarrow>
        (let k = bitlen a - bitlen b in if pow2 k \<le> x then k else k - 1))"

definition round_double :: "rat \<Rightarrow> pyfloat" where
  "round_double x =
     (if x = 0 then Finite 0
      else
        (let e = max (floor_log2 \<bar>x\<bar> - 52) (- 1074);
             m = round_half_even (\<bar>x\<bar> / pow2 e);
             y = of_int m * pow2 e
         in if 2 ^ 1024 \<le> y then (if 0 < x then PosInf else NegInf)
            else Finite (if 0 < x then y else - y)))"

text \<open>\<open>a / b\<close> on integers: the correctly rounded quotient.\<close>

definition int_truediv :: "int \<Rightarrow> int \<Rightarrow> pyerr + pyfloat" where
  "int_truediv a b =
     (if b = 0 then Inl ZeroDivisionError
      else (case round_double (of_int a / of_int b) of
              Finite q \<Rightarrow> Inr (Finite q)
            | _ \<Rightarrow> Inl OverflowError))"

text \<open>\<open>float(i)\<close> for an integer.\<close>

definition float_of_int :: "int \<Rightarrow> pyerr + pyfloat" where
  "float_of_int i =
     (case round_double (of_int i) of
        Finite q \<Rightarrow> Inr (Finite q)
      | _ \<Rightarrow> Inl OverflowError)"

fun float_mul :: "pyfloat \<Rightarrow> pyfloat \<Rightarrow> pyfloat" where
  "float_mul (Finite a) (Finite b) = round_double (a * b)"
| "float_mul NaN _ = NaN"
| "float_mul _ NaN = NaN"
| "float_mul (Finite a) PosInf = (if 0 < a then PosInf else if a < 0 then NegInf else NaN)"
| "float_mul (Finite a) NegInf = (if 0 < a then NegInf else if a < 0 then PosInf else NaN)"
| "float_mul PosInf (Finite b) = (if 0 < b then PosInf else if b < 0 then NegInf else NaN)"
| "float_mul NegInf (Finite b) = (if 0 < b then NegInf else if b < 0 then PosInf else NaN)"
| "float_mul PosInf PosInf = PosInf"
| "float_mul PosInf NegInf = NegInf"
| "float_mul NegInf PosInf = NegInf"
| "float_mul NegInf NegInf = PosInf"

text \<open>\<open>int(x)\<close> for a float: truncation towards zero.\<close>

fun int_of_float :: "pyfloat \<Rightarrow> pyerr + int" where
  "int_of_float (Finite r) = Inr (if 0 \<le> r then \<lfloor>r\<rfloor> else - \<lfloor>- r\<rfloor>)"
| "int_of_float NaN = Inl ValueError"
| "int_of_float _ = Inl OverflowError"

text \<open>
  The library functions whose results are taken as given: parsing a \<open>str\<close> as an
  integer and as a float (\<open>None\<close> is a ValueError), the text an f-string gives a value,
  and the hexadecimal MD5 digest of a \<open>str\<close>.
\<close>

record builtins =
  int_of_str :: "string \<Rightarrow> int option"
  float_of_str :: "string \<Rightarrow> pyfloat option"
  format_value :: "json \<Rightarrow> string"
  md5_hexdigest :: "string \<Rightarrow> string"

fun py_int :: "builtins \<Rightarrow> json \<Rightarrow> pyerr + int" where
  "py_int B (JInt i) = Inr i"
| "py_int B (JBool b) = Inr (if b then 1 else 0)"
| "py_int B (JFloat x) = int_of_float x"
| "py_int B (JStr s) = (case int_of_str B s of Some i \<Rightarrow> Inr i | None \<Rightarrow> Inl ValueError)"
| "py_int B _ = Inl TypeError"

fun py_float :: "builtins \<Rightarrow> json \<Rightarrow> pyerr + pyfloat" where
  "py_float B (JFloat x) = Inr x"
| "py_float B (JInt i) = float_of_int i"
| "py_float B (JBool b) = Inr (Finite (if b then 1 else 0))"
| "py_float B (JStr s) = (case float_of_str B s of Some x \<Rightarrow> Inr x | None \<Rightarrow> Inl ValueError)"
| "py_float B _ = Inl TypeError"

section \<open>models/findings.py: the unified finding\<close>

record GeneratedFix =
  original_code :: string
  fixed_code :: string
  explanation :: string
  applicable :: bool

text \<open>
  The dataclass \<open>UnifiedFinding\<close>, with the field types it declares. The fields
  \<open>id\<close>, \<open>file\<close> and \<open>fix\<close> are written \<open>id_f\<close>, \<open>file_f\<close> and \<open>fix_f\<close>.
\<close>

record UnifiedFinding =
  id_f :: string
  source :: string
  category :: string
  severity :: string
  file_f :: string
  start_line :: int
  end_line :: int
  title :: string
  description :: string
  code_snippet :: string
  fix_f :: "GeneratedFix option"
  sonar_rule_id :: "string option"
  confidence :: pyfloat
  tags :: "string list"
  also_found_by :: "string list"

subsection \<open>Outcomes of a normalizer\<close>

text \<open>
  A normalizer is handed a decoded JSON value and Python checks no field type, so a call
  has one of three outcomes: it raises; it returns an object one of whose fields holds a
  value outside the type the dataclass declares for it (\<open>Untyped\<close>: no exception is
  raised, and the object is not a \<open>UnifiedFinding\<close> of the record above; a \<open>bool\<close>
  where an \<open>int\<close> is declared counts as outside); or it returns a finding. The steps that
  can raise are taken first, in the order of the source, the field types are compared at
  the end.
\<close>

datatype 'a outcome = Raise pyerr | Untyped | is_Ok: Ok 'a

definition raising :: "pyerr + 'a \<Rightarrow> ('a \<Rightarrow> 'b outcome) \<Rightarrow> 'b outcome" where
  "raising m f = (case m of Inl e \<Rightarrow> Raise e | Inr x \<Rightarrow> f x)"

definition typed :: "'a option \<Rightarrow> ('a \<Rightarrow> 'b outcome) \<Rightarrow> 'b outcome" where
  "typed m f = (case m of None \<Rightarrow> Untyped | Some x \<Rightarrow> f x)"

fun as_str :: "json \<Rightarrow> string option" where
  "as_str (JStr s) = Some s"
| "as_str _ = None"

fun as_int :: "json \<Rightarrow> int option" where
  "as_int (JInt i) = Some i"
| "as_int _ = None"

subsection \<open>Sonar converters\<close>

definition SONAR_TYPE_MAP :: "(string \<times> string) list" where
  "SONAR_TYPE_MAP =
     [(''BUG'', ''bug''), (''VULNERABILITY'', ''security''),
      (''SECURITY_HOTSPOT'', ''security''), (''CODE_SMELL'', ''maintainability'')]"

definition SONAR_SEVERITY_MAP :: "(string \<times> string) list" where
  "SONAR_SEVERITY_MAP =
     [(''BLOCKER'', ''critical''), (''CRITICAL'', ''critical''), (''MAJOR'', ''high''),
      (''MINOR'', ''medium''), (''INFO'', ''low'')]"

text \<open>
  The two \<open>if sonar_issue.get(k): description += ...\<close> statements of
  \<open>sonar_to_unified\<close>, for the key \<open>k\<close> and the label put before the value.
\<close>

definition append_note :: "builtins \<Rightarrow> (string \<times> json) list \<Rightarrow> string \<Rightarrow> string \<Rightarrow> json
    \<Rightarrow> pyerr + json" where
  "append_note B d k label description' =
     (if truthy (dict_get d k JNull)
      then py_iadd_str description'
             ([CHR 0x0A, CHR 0x0A] @ label @ format_value B (dict_get d k JNull))
      else Inr description')"

text \<open>
  The literal \<open>0.95\<close> of \<open>sonar_to_unified\<close> is the double nearest to 95/100; the
  default \<open>0.75\<close> of \<open>ai_to_unified\<close> is a double as it stands.
\<close>

definition sonar_to_unified :: "builtins \<Rightarrow> json \<Rightarrow> UnifiedFinding outcome" where
  "sonar_to_unified B sonar_issue =
     (case sonar_issue of
        JDict d \<Rightarrow>
          (let rule_id = dict_get d ''rule_id'' (dict_get d ''rule'' (JStr ''unknown''));
               line = dict_get d ''line'' (dict_get d ''start_line'' (JInt 1));
               end_line' = dict_get d ''end_line'' line;
               finding_id = take 12 (md5_hexdigest B
                 (''sonar-'' @ format_value B rule_id @ ''-''
                   @ format_value B (dict_get d ''file'' (JStr ''unknown'')) @ ''-''
                   @ format_value B line));
               sonar_type = dict_get d ''type'' (JStr ''CODE_SMELL'');
               sonar_severity = dict_get d ''severity'' (JStr ''MAJOR'')
           in raising (table_get SONAR_TYPE_MAP sonar_type ''bug'') (\<lambda>category'.
              raising (table_get SONAR_SEVERITY_MAP sonar_severity ''medium'') (\<lambda>severity'.
              raising (append_note B d ''effort'' ''Estimated effort: ''
                         (dict_get d ''message'' (JStr ''''))) (\<lambda>description1.
              raising (append_note B d ''fix_recommendation'' ''Recommendation: ''
                         description1) (\<lambda>description'.
              raising (py_slice_to 100 (dict_get d ''message'' (JStr ''Sonar finding'')))
                (\<lambda>title'.
              raising (str_lower sonar_type) (\<lambda>type_lower.
              typed (as_str (dict_get d ''file'' (JStr ''''))) (\<lambda>file_s.
              typed (as_int line) (\<lambda>line_i.
              typed (as_int end_line') (\<lambda>end_i.
              typed (as_str title') (\<lambda>title_s.
              typed (as_str description') (\<lambda>description_s.
              typed (as_str (dict_get d ''code_snippet'' (dict_get d ''snippet'' (JStr ''''))))
                (\<lambda>snippet_s.
              typed (as_str rule_id) (\<lambda>rule_s.
                Ok \<lparr>id_f = ''sonar-'' @ finding_id,
                    source = ''sonar'',
                    category = category',
                    severity = severity',
                    file_f = file_s,
                    start_line = line_i,
                    end_line = end_i,
                    title = title_s,
                    description = description_s,
                    code_snippet = snippet_s,
                    fix_f = None,
                    sonar_rule_id = Some rule_s,
                    confidence = round_double (95 / 100),
                    tags = [type_lower, rule_s],
                    also_found_by = []\<rparr>))))))))))))))
      | _ \<Rightarrow> Raise AttributeError)"

text \<open>
  The body of the \<open>try\<close> in the loop of \<open>sonar_response_to_unified\<close>: the issue is
  copied into the dictionary \<open>normalized\<close>, the file name loses its project prefix, and
  \<open>sonar_to_unified\<close> converts the copy.
\<close>

definition normalize_sonar_issue :: "builtins \<Rightarrow> json \<Rightarrow> UnifiedFinding outcome" where
  "normalize_sonar_issue B issue =
     (case issue of
        JDict d \<Rightarrow>
          (let file' = dict_get d ''component'' (dict_get d ''file'' (JStr ''''));
               normalized =
                 [(''rule_id'', dict_get d ''rule'' (dict_get d ''rule_id'' (JStr ''unknown''))),
                  (''line'', dict_get d ''line'' (JInt 1)),
                  (''file'', file'),
                  (''message'', dict_get d ''message'' (JStr '''')),
                  (''severity'', dict_get d ''severity'' (JStr ''MAJOR'')),
                  (''type'', dict_get d ''type'' (dict_get d ''issue_type'' (JStr ''CODE_SMELL'')))]
           in raising (contains_colon file') (\<lambda>has_colon.
                if has_colon
                then (case file' of
                        JStr s \<Rightarrow> sonar_to_unified B
                          (JDict (AList.update ''file'' (JStr (last_segment s)) normalized))
                      | _ \<Rightarrow> Raise AttributeError)
                else sonar_to_unified B (JDict normalized)))
      | _ \<Rightarrow> Raise AttributeError)"

text \<open>
  The loop \<open>for issue in issues: try: findings.append(...) except Exception: print(...)\<close>
  of both batch normalizers, for the conversion \<open>conv\<close> of one issue. An entry \<open>None\<close>
  of the result is an object outside the declared field types.
\<close>

fun convert_issues :: "(json \<Rightarrow> UnifiedFinding outcome) \<Rightarrow> UnifiedFinding option list
    \<Rightarrow> json list \<Rightarrow> UnifiedFinding option list" where
  "convert_issues conv findings [] = findings"
| "convert_issues conv findings (issue # issues) =
     (case conv issue of
        Raise e \<Rightarrow> convert_issues conv findings issues
      | Untyped \<Rightarrow> convert_issues conv (findings @ [None]) issues
      | Ok f \<Rightarrow> convert_issues conv (findings @ [Some f]) issues)"

text \<open>The value of the variable \<open>issues\<close> of \<open>sonar_response_to_unified\<close>.\<close>

definition sonar_issues :: "(string \<times> json) list \<Rightarrow> json" where
  "sonar_issues d =
     py_or (dict_get d ''vulnerabilities'' (JList []))
       (py_or (dict_get d ''issues'' (JList []))
         (py_or (dict_get d ''findings'' (JList [])) (JList [])))"

definition sonar_response_to_unified :: "builtins \<Rightarrow> json
    \<Rightarrow> pyerr + UnifiedFinding option list" where
  "sonar_response_to_unified B sonar_response =
     (case sonar_response of
        JDict d \<Rightarrow>
          (case py_iter (sonar_issues d) of
             None \<Rightarrow> Inl TypeError
           | Some items \<Rightarrow> Inr (convert_issues (normalize_sonar_issue B) [] items))
      | _ \<Rightarrow> Inl AttributeError)"

subsection \<open>AI review converters\<close>

definition AI_TYPE_MAP :: "(string \<times> string) list" where
  "AI_TYPE_MAP =
     [(''bug'', ''bug''), (''error'', ''bug''), (''logic'', ''logic''),
      (''logical_error'', ''logic''), (''security'', ''security''), (''style'', ''style''),
      (''performance'', ''performance''), (''possible_bug'', ''bug''),
      (''possible_issue'', ''bug'')]"

text \<open>The \<open>GeneratedFix\<close> that \<open>ai_to_unified\<close> builds when the issue suggests one.\<close>

definition ai_fix :: "(string \<times> json) list \<Rightarrow> GeneratedFix option option" where
  "ai_fix d =
     (if truthy (dict_get d ''suggestion'' JNull) \<or> truthy (dict_get d ''fixed_code'' JNull)
      then (case as_str (dict_get d ''original_code'' (dict_get d ''code_snippet'' (JStr ''''))) of
              None \<Rightarrow> None
            | Some oc \<Rightarrow>
               (case as_str (dict_get d ''fixed_code'' (dict_get d ''suggestion'' (JStr ''''))) of
                  None \<Rightarrow> None
                | Some fc \<Rightarrow>
                   (case as_str (dict_get d ''explanation'' (dict_get d ''description'' (JStr ''''))) of
                      None \<Rightarrow> None
                    | Some ex \<Rightarrow>
                        Some (Some \<lparr>original_code = oc, fixed_code = fc,
                                    explanation = ex, applicable = True\<rparr>))))
      else Some None)"

definition ai_to_unified :: "builtins \<Rightarrow> json \<Rightarrow> UnifiedFinding outcome" where
  "ai_to_unified B ai_issue =
     (case ai_issue of
        JDict d \<Rightarrow>
          (let content_hash = take 12 (md5_hexdigest B
                 (format_value B (dict_get d ''file'' (JStr '''')) @ ''-''
                   @ format_value B (dict_get d ''start_line'' (JInt 0)) @ ''-''
                   @ format_value B (dict_get d ''title'' (JStr ''''))))
           in raising (str_lower (dict_get d ''type'' (dict_get d ''issue_header'' (JStr ''issue''))))
                (\<lambda>ai_type0.
              let ai_type = map (\<lambda>c. if c = CHR '' '' then CHR ''_'' else c) ai_type0;
                  category' = (case map_of AI_TYPE_MAP ai_type of Some c \<Rightarrow> c | None \<Rightarrow> ''bug'')
              in raising (str_lower (dict_get d ''severity'' (JStr ''medium''))) (\<lambda>severity0.
              let severity_str =
                    (if severity0 \<notin> set [''critical'', ''high'', ''medium'', ''low'', ''info'']
                     then ''medium'' else severity0)
              in raising (py_int B (dict_get d ''start_line'' (dict_get d ''line'' (JInt 1))))
                   (\<lambda>start_i.
                 raising (py_int B (dict_get d ''end_line''
                            (dict_get d ''start_line'' (dict_get d ''line'' (JInt 1)))))
                   (\<lambda>end_i.
                 raising (py_slice_to 100
                            (dict_get d ''title'' (dict_get d ''issue_header'' (JStr ''Issue detected''))))
                   (\<lambda>title'.
                 raising (py_float B (dict_get d ''confidence'' (JFloat (Finite (75 / 100)))))
                   (\<lambda>confidence'.
                 typed (ai_fix d) (\<lambda>fix'.
                 typed (as_str (dict_get d ''file'' (dict_get d ''relevant_file'' (JStr ''''))))
                   (\<lambda>file_s.
                 typed (as_str title') (\<lambda>title_s.
                 typed (as_str (dict_get d ''description'' (dict_get d ''issue_content'' (JStr ''''))))
                   (\<lambda>description_s.
                 typed (as_str (dict_get d ''code_snippet'' (JStr ''''))) (\<lambda>snippet_s.
                   Ok \<lparr>id_f = ''ai-'' @ content_hash,
                       source = ''pr_agent'',
                       category = category',
                       severity = severity_str,
                       file_f = file_s,
                       start_line = start_i,
                       end_line = end_i,
                       title = title_s,
                       description = description_s,
                       code_snippet = snippet_s,
                       fix_f = fix',
                       sonar_rule_id = None,
                       confidence = confidence',
                       tags = [category', ''ai-detected''],
                       also_found_by = []\<rparr>))))))))))))
      | _ \<Rightarrow> Raise AttributeError)"

text \<open>
  The value of the variable \<open>issues\<close> of \<open>ai_response_to_unified\<close>:
  \<open>ai_response.get('review', {})\<close> is only evaluated when \<open>issues\<close> is absent or
  falsy, and must then be a dictionary.
\<close>

definition ai_issues :: "(string \<times> json) list \<Rightarrow> pyerr + json" where
  "ai_issues d =
     (if truthy (dict_get d ''issues'' (JList []))
      then Inr (dict_get d ''issues'' (JList []))
      else (case dict_get d ''review'' (JDict []) of
              JDict r \<Rightarrow>
                Inr (py_or (dict_get r ''key_issues_to_review'' (JList []))
                       (py_or (dict_get d ''code_feedback'' (JList [])) (JList [])))
            | _ \<Rightarrow> Inl AttributeError))"

definition ai_response_to_unified :: "builtins \<Rightarrow> json
    \<Rightarrow> pyerr + UnifiedFinding option list" where
  "ai_response_to_unified B ai_response =
     (case ai_response of
        JDict d \<Rightarrow>
          ebind (ai_issues d)
            (\<lambda>issues.
               case py_iter issues of
                 None \<Rightarrow> Inl TypeError
               | Some items \<Rightarrow> Inr (convert_issues (ai_to_unified B) [] items))
      | _ \<Rightarrow> Inl AttributeError)"

subsection \<open>Quality gate\<close>

definition determine_quality_gate :: "UnifiedFinding list \<Rightarrow> string" where
  "determine_quality_gate findings =
     (let critical_count = length (filter (\<lambda>f. severity f = ''critical'') findings);
          high_count = length (filter (\<lambda>f. severity f = ''high'') findings);
          security_count = length (filter (\<lambda>f. category f = ''security'') findings)
      in if critical_count > 0 \<or> security_count > 0 then ''failed''
         else if high_count > 2 then ''warning''
         else ''passed'')"

subsection \<open>Merge and deduplication\<close>

definition merge_findings :: "UnifiedFinding list \<Rightarrow> UnifiedFinding list \<Rightarrow> UnifiedFinding list" where
  "merge_findings ai_findings sonar_findings = ai_findings @ sonar_findings"

definition normalize_for_dedup :: "string \<Rightarrow> string" where
  "normalize_for_dedup text = take 50 (py_strip (py_lower text))"

type_synonym dedup_key = "string \<times> int \<times> string"

definition dedup_key_of :: "UnifiedFinding \<Rightarrow> dedup_key" where
  "dedup_key_of finding =
     (file_f finding, start_line finding, normalize_for_dedup (title finding))"

text \<open>
  The body of the branch \<open>if key in seen\<close> of the loop of \<open>deduplicate_findings\<close>: the
  finding that \<open>seen[key]\<close> holds afterwards. When the new finding has the greater
  confidence it replaces the existing one; otherwise the existing one is updated in
  place.
\<close>

definition resolve_duplicate :: "UnifiedFinding \<Rightarrow> UnifiedFinding \<Rightarrow> UnifiedFinding" where
  "resolve_duplicate existing finding =
     (if float_gt (confidence finding) (confidence existing)
      then finding\<lparr>also_found_by := also_found_by finding @ [source existing],
                   fix_f := (if fix_f existing \<noteq> None \<and> fix_f finding = None
                             then fix_f existing else fix_f finding)\<rparr>
      else existing\<lparr>also_found_by := also_found_by existing @ [source finding],
                    fix_f := (if fix_f finding \<noteq> None \<and> fix_f existing = None
                              then fix_f finding else fix_f existing)\<rparr>)"

text \<open>
  The dictionary \<open>seen\<close> keeps its keys in insertion order: an association list in
  which assigning to a present key replaces the value where it stands and assigning to
  a new key appends (\<open>AList.update\<close>).
  The source updates the finding objects in place; the model returns the updated
  values, which is the same list for findings that are separate objects with lists of
  their own, as the normalizers build them.
\<close>

definition dedup_step :: "(dedup_key \<times> UnifiedFinding) list \<Rightarrow> UnifiedFinding
    \<Rightarrow> (dedup_key \<times> UnifiedFinding) list" where
  "dedup_step seen finding =
     (let key = dedup_key_of finding
      in case map_of seen key of
           Some existing \<Rightarrow> AList.update key (resolve_duplicate existing finding) seen
         | None \<Rightarrow> AList.update key finding seen)"

definition deduplicate_findings :: "UnifiedFinding list \<Rightarrow> UnifiedFinding list" where
  "deduplicate_findings findings = map snd (foldl dedup_step [] findings)"

subsection \<open>Summary\<close>

record summary =
  total_s :: nat
  with_fix :: nat
  by_source :: "(string \<times> nat) list"
  by_severity :: "(string \<times> nat) list"
  by_category :: "(string \<times> nat) list"
  quality_gate :: string

text \<open>\<open>counts[k] = counts.get(k, 0) + 1\<close> on a dictionary in insertion order.\<close>

definition count_key :: "(string \<times> nat) list \<Rightarrow> string \<Rightarrow> (string \<times> nat) list" where
  "count_key counts k =
     AList.update k ((case map_of counts k of Some n \<Rightarrow> n | None \<Rightarrow> 0) + 1) counts"

definition create_summary :: "UnifiedFinding list \<Rightarrow> summary" where
  "create_summary findings =
     \<lparr>total_s = length findings,
      with_fix = length (filter (\<lambda>f. fix_f f \<noteq> None) findings),
      by_source = foldl count_key [] (map source findings),
      by_severity = foldl count_key [] (map severity findings),
      by_category = foldl count_key [] (map category findings),
      quality_gate = determine_quality_gate findings\<rparr>"

record 'g AnalysisResult =
  findings :: "UnifiedFinding list"
  summary_r :: summary
  code_graph :: 'g
  execution_time_ms :: int

section \<open>pr_agent/algo/orchestrator.py\<close>

text \<open>
  What awaiting one analyzer task under \<open>asyncio.wait_for\<close> gives: the findings the
  task returned, an exception it raised (an \<open>Exception\<close>, which the \<open>except\<close> clauses
  catch), or the expiry of the timeout. The scheduling of the two tasks is not modelled.
\<close>

datatype branch = Returned "UnifiedFinding list" | Failed pyerr | TimedOut

text \<open>
  \<open>_run_parallel_analysis\<close>: both lists start empty, and each \<open>try\<close> assigns its list
  only when the task returns.
\<close>

definition run_parallel_analysis :: "branch \<Rightarrow> branch
    \<Rightarrow> UnifiedFinding list \<times> UnifiedFinding list" where
  "run_parallel_analysis ai_task sonar_task =
     (let ai_findings = (case ai_task of Returned fs \<Rightarrow> fs | Failed e \<Rightarrow> [] | TimedOut \<Rightarrow> []);
          sonar_findings = (case sonar_task of Returned fs \<Rightarrow> fs | Failed e \<Rightarrow> [] | TimedOut \<Rightarrow> [])
      in (ai_findings, sonar_findings))"

text \<open>
  \<open>_generate_missing_fixes\<close>. The language model is outside the code: \<open>gen i f\<close> is
  what the \<open>i\<close>-th call of \<open>_generate_fix\<close>, made for the finding \<open>f\<close>, gives, \<open>None\<close> also
  when the call raises (the loop catches the exception and leaves the finding as it is).
\<close>

definition generate_missing_fixes :: "(nat \<Rightarrow> UnifiedFinding \<Rightarrow> GeneratedFix option)
    \<Rightarrow> UnifiedFinding list \<Rightarrow> UnifiedFinding list" where
  "generate_missing_fixes gen findings' =
     (let needs_fix = filter (\<lambda>f. fix_f f = None) findings';
          has_fix = filter (\<lambda>f. fix_f f \<noteq> None) findings'
      in if needs_fix = [] then findings'
         else has_fix @
              map (\<lambda>(i, f). case gen i f of Some fx \<Rightarrow> f\<lparr>fix_f := Some fx\<rparr> | None \<Rightarrow> f)
                (zip [0 ..< length needs_fix] needs_fix))"

text \<open>
  \<open>analyze\<close>, from the code graph that was built, the outcomes of the two analyzer
  tasks, the answers of the fix generator and the time the clock measured.
\<close>

definition analyze :: "'g \<Rightarrow> branch \<Rightarrow> branch \<Rightarrow> (nat \<Rightarrow> UnifiedFinding \<Rightarrow> GeneratedFix option)
    \<Rightarrow> int \<Rightarrow> 'g AnalysisResult" where
  "analyze code_graph' ai_task sonar_task gen execution_time =
     (case run_parallel_analysis ai_task sonar_task of (ai_findings, sonar_findings) \<Rightarrow>
        (let all_findings = merge_findings ai_findings sonar_findings;
             unique_findings = deduplicate_findings all_findings;
             with_fixes = generate_missing_fixes gen unique_findings
         in \<lparr>findings = with_fixes,
             summary_r = create_summary with_fixes,
             code_graph = code_graph',
             execution_time_ms = execution_time\<rparr>))"

section \<open>pr_agent/servers/job_manager.py\<close>

text \<open>
  The module's dictionary \<open>JOBS\<close> is the state, passed to every function and returned
  by it. Each reading of the clock is an argument (the ISO text of the time), and the
  calls of the logger are left out.
\<close>

record job_progress =
  current_file :: string
  processed :: int
  total :: int
  percentage :: int

record job =
  status :: string
  logs :: "string list"
  progress :: job_progress
  result :: "(string \<times> json) list"
  created_at :: string
  updated_at :: string

type_synonym jobs = "string \<rightharpoonup> job"

definition create_job :: "string \<Rightarrow> string \<Rightarrow> jobs \<Rightarrow> job \<times> jobs" where
  "create_job now job_id JOBS =
     (let j = \<lparr>status = ''pending'', logs = [],
               progress = \<lparr>current_file = '''', processed = 0, total = 0, percentage = 0\<rparr>,
               result = [], created_at = now, updated_at = now\<rparr>
      in (j, JOBS(job_id \<mapsto> j)))"

definition get_job :: "string \<Rightarrow> jobs \<Rightarrow> job option" where
  "get_job job_id JOBS = JOBS job_id"

definition update_job_status :: "string \<Rightarrow> string \<Rightarrow> string \<Rightarrow> jobs \<Rightarrow> bool \<times> jobs" where
  "update_job_status now job_id status' JOBS =
     (case JOBS job_id of
        None \<Rightarrow> (False, JOBS)
      | Some j \<Rightarrow> (True, JOBS(job_id \<mapsto> j\<lparr>status := status', updated_at := now\<rparr>)))"

definition update_job_log :: "string \<Rightarrow> string \<Rightarrow> string \<Rightarrow> jobs \<Rightarrow> bool \<times> jobs" where
  "update_job_log now job_id message JOBS =
     (case JOBS job_id of
        None \<Rightarrow> (False, JOBS)
      | Some j \<Rightarrow> (True, JOBS(job_id \<mapsto> j\<lparr>logs := logs j @ [message], updated_at := now\<rparr>)))"

text \<open>\<open>int((processed / total) * 100)\<close>, in floating-point arithmetic.\<close>

definition percent_of :: "int \<Rightarrow> int \<Rightarrow> pyerr + int" where
  "percent_of processed' total' =
     ebind (int_truediv processed' total') (\<lambda>q. int_of_float (float_mul q (Finite 100)))"

text \<open>
  \<open>update_job_progress\<close>. The dictionary \<open>p\<close> is the job's own \<open>progress\<close>, so the three
  assignments are kept when the computation of the percentage raises.
\<close>

definition update_job_progress :: "string \<Rightarrow> string \<Rightarrow> string option \<Rightarrow> int option \<Rightarrow> int option
    \<Rightarrow> jobs \<Rightarrow> (pyerr + bool) \<times> jobs" where
  "update_job_progress now job_id current_file' processed' total' JOBS =
     (case JOBS job_id of
        None \<Rightarrow> (Inr False, JOBS)
      | Some j \<Rightarrow>
          (let p0 = progress j;
               p1 = (case current_file' of Some c \<Rightarrow> p0\<lparr>current_file := c\<rparr> | None \<Rightarrow> p0);
               p2 = (case processed' of Some n \<Rightarrow> p1\<lparr>processed := n\<rparr> | None \<Rightarrow> p1);
               p = (case total' of Some n \<Rightarrow> p2\<lparr>total := n\<rparr> | None \<Rightarrow> p2)
           in if total p > 0
              then (case percent_of (processed p) (total p) of
                      Inl e \<Rightarrow> (Inl e, JOBS(job_id \<mapsto> j\<lparr>progress := p\<rparr>))
                    | Inr pc \<Rightarrow>
                        (Inr True,
                         JOBS(job_id \<mapsto> j\<lparr>progress := p\<lparr>percentage := pc\<rparr>, updated_at := now\<rparr>)))
              else (Inr True, JOBS(job_id \<mapsto> j\<lparr>progress := p, updated_at := now\<rparr>))))"

definition update_job_result :: "string \<Rightarrow> string \<Rightarrow> (string \<times> json) list \<Rightarrow> jobs
    \<Rightarrow> bool \<times> jobs" where
  "update_job_result now job_id result' JOBS =
     (case JOBS job_id of
        None \<Rightarrow> (False, JOBS)
      | Some j \<Rightarrow> (True, JOBS(job_id \<mapsto> j\<lparr>result := result', updated_at := now\<rparr>)))"

definition cancel_job :: "string \<Rightarrow> string \<Rightarrow> jobs \<Rightarrow> bool \<times> jobs" where
  "cancel_job now job_id JOBS =
     (case JOBS job_id of
        None \<Rightarrow> (False, JOBS)
      | Some j \<Rightarrow>
          (True, snd (update_job_log now job_id ''Job Cancellation Requested by User.''
                        (JOBS(job_id \<mapsto> j\<lparr>status := ''cancelled''\<rparr>)))))"

definition is_job_cancelled :: "string \<Rightarrow> jobs \<Rightarrow> bool" where
  "is_job_cancelled job_id JOBS =
     (case JOBS job_id of None \<Rightarrow> False | Some j \<Rightarrow> status j = ''cancelled'')"

definition complete_job :: "string \<Rightarrow> string \<Rightarrow> string \<Rightarrow> (string \<times> json) list \<Rightarrow> jobs
    \<Rightarrow> bool \<times> jobs" where
  "complete_job now now_log job_id result' JOBS =
     (case JOBS job_id of
        None \<Rightarrow> (False, JOBS)
      | Some j \<Rightarrow>
          (True, snd (update_job_log now_log job_id ''Job completed successfully.''
                        (JOBS(job_id \<mapsto> j\<lparr>status := ''completed'', result := result',
                                           updated_at := now\<rparr>)))))"

definition fail_job :: "string \<Rightarrow> string \<Rightarrow> string \<Rightarrow> string \<Rightarrow> jobs \<Rightarrow> bool \<times> jobs" where
  "fail_job now now_log job_id error JOBS =
     (case JOBS job_id of
        None \<Rightarrow> (False, JOBS)
      | Some j \<Rightarrow>
          (True, snd (update_job_log now_log job_id (''Job failed: '' @ error)
                        (JOBS(job_id \<mapsto> j\<lparr>status := ''failed'',
                                           result := AList.update ''error'' (JStr error) (result j),
                                           updated_at := now\<rparr>)))))"

text \<open>The terminal statuses of a job.\<close>

definition terminal :: "string \<Rightarrow> bool" where
  "terminal s = (s = ''completed'' \<or> s = ''failed'' \<or> s = ''cancelled'')"

section \<open>Auxiliary definitions\<close>

text \<open>
  The invariant of the dictionary \<open>seen\<close> in \<open>deduplicate_findings\<close>: its keys are
  distinct and every value is stored under its own dedup key.
\<close>

definition seen_ok :: "(dedup_key \<times> UnifiedFinding) list \<Rightarrow> bool" where
  "seen_ok seen = (distinct (map fst seen) \<and> map (dedup_key_of \<circ> snd) seen = map fst seen)"

text \<open>
  A finding without the two fields that deduplication and the fix pass may change.
\<close>

definition core_of :: "UnifiedFinding \<Rightarrow> UnifiedFinding" where
  "core_of f = f\<lparr>also_found_by := [], fix_f := None\<rparr>"

text \<open>
  What the loop of a batch normalizer appends for one issue: nothing when the conversion
  raises, otherwise the object converted.
\<close>

definition appended :: "(json \<Rightarrow> UnifiedFinding outcome) \<Rightarrow> json \<Rightarrow> UnifiedFinding option option" where
  "appended conv issue =
     (case conv issue of Raise e \<Rightarrow> None | Untyped \<Rightarrow> Some None | Ok f \<Rightarrow> Some (Some f))"

text \<open>
  Concrete inputs for running the code: a finding at line 10 of \<open>src/a.py\<close> with a given
  id, source and confidence, and library functions that parse no text and give the
  empty text for every value and digest (they only decide the id of a normalized finding
  and the conversion of numeric text).
\<close>

definition example_finding :: "string \<Rightarrow> string \<Rightarrow> pyfloat \<Rightarrow> UnifiedFinding" where
  "example_finding i src c =
     \<lparr>id_f = i, source = src, category = ''bug'', severity = ''medium'',
      file_f = ''src/a.py'', start_line = 10, end_line = 10,
      title = ''secret exposed'', description = ''secret exposed'', code_snippet = '''',
      fix_f = None, sonar_rule_id = None, confidence = c, tags = [], also_found_by = []\<rparr>"

definition example_builtins :: builtins where
  "example_builtins =
     \<lparr>int_of_str = (\<lambda>s. None), float_of_str = (\<lambda>s. None),
      format_value = (\<lambda>v. []), md5_hexdigest = (\<lambda>s. [])\<rparr>"

text \<open>The raw static issue of the scenario of the specification.\<close>

definition example_static_issue :: json where
  "example_static_issue =
     JDict [(''component'', JStr ''proj:src/a.py''), (''line'', JInt 10),
            (''rule'', JStr ''S6334''), (''severity'', JStr ''BLOCKER''),
            (''type'', JStr ''VULNERABILITY''), (''message'', JStr ''secret exposed'')]"

text \<open>A job store with one job, created and then completed with an empty result.\<close>

definition example_completed_jobs :: jobs where
  "example_completed_jobs =
     snd (complete_job ''t1'' ''t2'' ''job-1'' [] (snd (create_job ''t0'' ''job-1'' Map.empty)))"

section \<open>Properties of the quality gate\<close>

text \<open>
  C1. For every list of findings the quality gate is \<open>failed\<close> exactly when some finding
  has severity \<open>critical\<close> or category \<open>security\<close>; otherwise it is \<open>warning\<close> exactly
  when more than two findings have severity \<open>high\<close>; otherwise it is \<open>passed\<close>.
\<close>

theorem quality_gate_three_tier:
  "(determine_quality_gate fs = ''failed'' \<longleftrightarrow>
      (\<exists>f \<in> set fs. severity f = ''critical'' \<or> category f = ''security''))
   \<and> (determine_quality_gate fs = ''warning'' \<longleftrightarrow>
      \<not> (\<exists>f \<in> set fs. severity f = ''critical'' \<or> category f = ''security'')
      \<and> 2 < length (filter (\<lambda>f. severity f = ''high'') fs))
   \<and> (determine_quality_gate fs = ''passed'' \<longleftrightarrow>
      \<not> (\<exists>f \<in> set fs. severity f = ''critical'' \<or> category f = ''security'')
      \<and> \<not> 2 < length (filter (\<lambda>f. severity f = ''high'') fs))"
proof -
  have crit: "0 < length (filter (\<lambda>f. severity f = ''critical'') fs)
      \<longleftrightarrow> (\<exists>f \<in> set fs. severity f = ''critical'')"
    by (simp add: filter_empty_conv)
  have sec: "0 < length (filter (\<lambda>f. category f = ''security'') fs)
      \<longleftrightarrow> (\<exists>f \<in> set fs. category f = ''security'')"
    by (simp add: filter_empty_conv)
  have any: "(0 < length (filter (\<lambda>f. severity f = ''critical'') fs)
       \<or> 0 < length (filter (\<lambda>f. category f = ''security'') fs))
      \<longleftrightarrow> (\<exists>f \<in> set fs. severity f = ''critical'' \<or> category f = ''security'')"
    unfolding crit sec by blast
  show ?thesis
    unfolding determine_quality_gate_def Let_def any by simp
qed

section \<open>Deduplication\<close>

lemma double_095: "round_double (19 / 20) = Finite (4278419646001971 / 4503599627370496)"
  by code_simp

lemma float_gt_irrefl: "\<not> float_gt x x"
  by (cases x) simp_all

lemma float_gt_asym: "float_gt x y \<Longrightarrow> \<not> float_gt y x"
  by (cases x; cases y) simp_all

lemma update_values_keys:
  "g v = k \<Longrightarrow> map (g \<circ> snd) al = map fst al
   \<Longrightarrow> map (g \<circ> snd) (AList.update k v al) = map fst (AList.update k v al)"
  by (induction al) auto

lemma alist_filter_key:
  "distinct (map fst al) \<Longrightarrow> map (g \<circ> snd) al = map fst al
   \<Longrightarrow> filter (\<lambda>v. g v = k) (map snd al) = (case map_of al k of None \<Rightarrow> [] | Some v \<Rightarrow> [v])"
proof (induction al)
  case Nil
  then show ?case by simp
next
  case (Cons p al)
  from Cons.prems have gp: "g (snd p) = fst p" and notin: "fst p \<notin> fst ` set al"
    and d: "distinct (map fst al)" and m: "map (g \<circ> snd) al = map fst al"
    by simp_all
  from notin have none: "map_of al (fst p) = None"
    by (simp add: map_of_eq_None_iff)
  show ?case
  proof (cases "fst p = k")
    case True
    with Cons.IH[OF d m] gp none show ?thesis by (cases p) simp
  next
    case False
    with Cons.IH[OF d m] gp show ?thesis by (cases p) simp
  qed
qed

lemma dedup_key_resolve:
  "dedup_key_of e = dedup_key_of f \<Longrightarrow> dedup_key_of (resolve_duplicate e f) = dedup_key_of f"
  by (simp add: resolve_duplicate_def dedup_key_of_def)

lemma dedup_step_keys:
  "map fst (dedup_step seen f) =
     (if dedup_key_of f \<in> set (map fst seen) then map fst seen
      else map fst seen @ [dedup_key_of f])"
  by (simp add: dedup_step_def Let_def update_keys split: option.split)

lemma dedup_step_lookup:
  "map_of (dedup_step seen f) k =
     (if dedup_key_of f = k
      then Some (case map_of seen k of None \<Rightarrow> f | Some e \<Rightarrow> resolve_duplicate e f)
      else map_of seen k)"
  by (simp add: dedup_step_def Let_def update_conv' split: option.split)

lemma seen_ok_lookup:
  assumes "seen_ok seen" "map_of seen k = Some v"
  shows "dedup_key_of v = k"
proof -
  from assms(2) have "(k, v) \<in> set seen" by (rule map_of_SomeD)
  moreover from assms(1) have "\<forall>x\<in>set seen. dedup_key_of (snd x) = fst x"
    by (simp add: seen_ok_def)
  ultimately show ?thesis by force
qed

lemma seen_ok_step:
  assumes "seen_ok seen"
  shows "seen_ok (dedup_step seen f)"
proof -
  from assms have d: "distinct (map fst seen)"
    and m: "map (dedup_key_of \<circ> snd) seen = map fst seen"
    by (simp_all add: seen_ok_def)
  have d': "distinct (map fst (dedup_step seen f))"
    using d by (simp add: dedup_step_keys)
  have m': "map (dedup_key_of \<circ> snd) (dedup_step seen f) = map fst (dedup_step seen f)"
  proof (cases "map_of seen (dedup_key_of f)")
    case None
    then show ?thesis
      by (simp add: dedup_step_def update_values_keys[OF _ m])
  next
    case (Some e)
    with assms have "dedup_key_of e = dedup_key_of f" by (rule seen_ok_lookup)
    then have "dedup_key_of (resolve_duplicate e f) = dedup_key_of f"
      by (rule dedup_key_resolve)
    with Some show ?thesis
      by (simp add: dedup_step_def update_values_keys[OF _ m])
  qed
  from d' m' show ?thesis by (simp add: seen_ok_def)
qed

lemma seen_ok_foldl: "seen_ok seen \<Longrightarrow> seen_ok (foldl dedup_step seen fs)"
  by (induction fs arbitrary: seen) (simp_all add: seen_ok_step)

lemma dedup_step_key_set:
  "set (map fst (dedup_step seen f)) = insert (dedup_key_of f) (set (map fst seen))"
  unfolding dedup_step_keys by (simp add: insert_absorb)

lemma foldl_keys_set:
  "set (map fst (foldl dedup_step seen fs)) = set (map fst seen) \<union> dedup_key_of ` set fs"
proof (induction fs arbitrary: seen)
  case Nil
  then show ?case by simp
next
  case (Cons f fs)
  have "set (map fst (foldl dedup_step seen (f # fs)))
      = set (map fst (dedup_step seen f)) \<union> dedup_key_of ` set fs"
    using Cons.IH[of "dedup_step seen f"] by simp
  also have "\<dots> = set (map fst seen) \<union> dedup_key_of ` set (f # fs)"
    unfolding dedup_step_key_set by simp
  finally show ?case .
qed

lemma foldl_lookup:
  "map_of (foldl dedup_step seen fs) k =
     foldl (\<lambda>acc f. Some (case acc of None \<Rightarrow> f | Some e \<Rightarrow> resolve_duplicate e f))
       (map_of seen k) (filter (\<lambda>f. dedup_key_of f = k) fs)"
  by (induction fs arbitrary: seen) (simp_all add: dedup_step_lookup)

lemma dedup_keys: "map dedup_key_of (deduplicate_findings fs) = map fst (foldl dedup_step [] fs)"
proof -
  have "seen_ok (foldl dedup_step [] fs)"
    by (rule seen_ok_foldl) (simp add: seen_ok_def)
  then show ?thesis by (simp add: deduplicate_findings_def seen_ok_def)
qed

lemma dedup_distinct_keys: "distinct (map dedup_key_of (deduplicate_findings fs))"
proof -
  have "seen_ok (foldl dedup_step [] fs)"
    by (rule seen_ok_foldl) (simp add: seen_ok_def)
  then show ?thesis unfolding dedup_keys by (simp add: seen_ok_def)
qed

lemma dedup_key_set:
  "set (map dedup_key_of (deduplicate_findings fs)) = set (map dedup_key_of fs)"
  unfolding dedup_keys foldl_keys_set by simp

lemma dedup_group:
  "filter (\<lambda>f. dedup_key_of f = k) (deduplicate_findings fs) =
     (case foldl (\<lambda>acc f. Some (case acc of None \<Rightarrow> f | Some e \<Rightarrow> resolve_duplicate e f))
             None (filter (\<lambda>f. dedup_key_of f = k) fs) of
        None \<Rightarrow> [] | Some v \<Rightarrow> [v])"
proof -
  have ok: "seen_ok (foldl dedup_step [] fs)"
    by (rule seen_ok_foldl) (simp add: seen_ok_def)
  then have "filter (\<lambda>f. dedup_key_of f = k) (map snd (foldl dedup_step [] fs)) =
      (case map_of (foldl dedup_step [] fs) k of None \<Rightarrow> [] | Some v \<Rightarrow> [v])"
    unfolding seen_ok_def by (intro alist_filter_key) simp_all
  then show ?thesis
    by (simp add: deduplicate_findings_def foldl_lookup)
qed

lemma dedup_pair:
  assumes "filter (\<lambda>f. dedup_key_of f = k) fs = [a, b]"
  shows "filter (\<lambda>f. dedup_key_of f = k) (deduplicate_findings fs) = [resolve_duplicate a b]"
  unfolding dedup_group assms by simp


text \<open>
  C2, as stated, fails when a third finding holds the key: the first and the third
  finding below share the key and the third has the strictly higher confidence, and it
  is kept, but the source of the first is not in its \<open>also_found_by\<close> (the second finding
  replaced the first before the third replaced the second).
\<close>

theorem dedup_third_finding_counterexample:
  "deduplicate_findings
     [example_finding ''a'' ''pr_agent'' (Finite (1 / 2)),
      example_finding ''b'' ''manual'' (Finite (3 / 4)),
      example_finding ''c'' ''sonar'' (round_double (95 / 100))]
   = [(example_finding ''c'' ''sonar'' (round_double (95 / 100)))\<lparr>also_found_by := [''manual'']\<rparr>]
   \<and> dedup_key_of (example_finding ''a'' ''pr_agent'' (Finite (1 / 2)))
       = dedup_key_of (example_finding ''c'' ''sonar'' (round_double (95 / 100)))
   \<and> float_gt (confidence (example_finding ''c'' ''sonar'' (round_double (95 / 100))))
        (confidence (example_finding ''a'' ''pr_agent'' (Finite (1 / 2))))
   \<and> source (example_finding ''a'' ''pr_agent'' (Finite (1 / 2))) = ''pr_agent''"
  by (simp add: deduplicate_findings_def dedup_step_def resolve_duplicate_def
      example_finding_def dedup_key_of_def double_095)

text \<open>
  C2, amended. When exactly two findings \<open>a\<close> (seen first) and \<open>b\<close> of the input share a dedup
  key, the one finding returned for that key is: \<open>b\<close> when \<open>b\<close> has the strictly higher
  confidence, with the source of \<open>a\<close> appended to its \<open>also_found_by\<close> and the fix of \<open>a\<close>
  adopted when \<open>a\<close> has one and \<open>b\<close> has none; and \<open>a\<close> when \<open>a\<close> has the strictly higher
  confidence or the confidences are equal, with the source of \<open>b\<close> appended and the fix of
  \<open>b\<close> adopted likewise.
\<close>

theorem dedup_tie_break:
  assumes "filter (\<lambda>f. dedup_key_of f = k) fs = [a, b]"
  shows "(float_gt (confidence b) (confidence a) \<longrightarrow>
            filter (\<lambda>f. dedup_key_of f = k) (deduplicate_findings fs) =
              [b\<lparr>also_found_by := also_found_by b @ [source a],
                 fix_f := (if fix_f a \<noteq> None \<and> fix_f b = None then fix_f a else fix_f b)\<rparr>])
       \<and> (float_gt (confidence a) (confidence b) \<or> confidence a = confidence b \<longrightarrow>
            filter (\<lambda>f. dedup_key_of f = k) (deduplicate_findings fs) =
              [a\<lparr>also_found_by := also_found_by a @ [source b],
                 fix_f := (if fix_f b \<noteq> None \<and> fix_f a = None then fix_f b else fix_f a)\<rparr>])"
proof -
  have later: "float_gt (confidence b) (confidence a) \<Longrightarrow>
      resolve_duplicate a b =
        b\<lparr>also_found_by := also_found_by b @ [source a],
          fix_f := (if fix_f a \<noteq> None \<and> fix_f b = None then fix_f a else fix_f b)\<rparr>"
    by (simp add: resolve_duplicate_def)
  have earlier: "\<not> float_gt (confidence b) (confidence a) \<Longrightarrow>
      resolve_duplicate a b =
        a\<lparr>also_found_by := also_found_by a @ [source b],
          fix_f := (if fix_f b \<noteq> None \<and> fix_f a = None then fix_f b else fix_f a)\<rparr>"
    by (simp add: resolve_duplicate_def)
  have no: "float_gt (confidence a) (confidence b) \<or> confidence a = confidence b
      \<Longrightarrow> \<not> float_gt (confidence b) (confidence a)"
    using float_gt_asym float_gt_irrefl by metis
  show ?thesis
    unfolding dedup_pair[OF assms] using later earlier no by metis
qed

theorem dedup_tie_break_witness:
  "filter (\<lambda>f. dedup_key_of f = dedup_key_of (example_finding ''A'' ''sonar'' (round_double (95 / 100))))
      [example_finding ''A'' ''sonar'' (round_double (95 / 100)),
       example_finding ''B'' ''pr_agent'' (Finite (75 / 100))]
    = [example_finding ''A'' ''sonar'' (round_double (95 / 100)),
       example_finding ''B'' ''pr_agent'' (Finite (75 / 100))]
   \<and> float_gt (confidence (example_finding ''A'' ''sonar'' (round_double (95 / 100))))
        (confidence (example_finding ''B'' ''pr_agent'' (Finite (75 / 100))))
   \<and> deduplicate_findings
        [example_finding ''A'' ''sonar'' (round_double (95 / 100)),
         example_finding ''B'' ''pr_agent'' (Finite (75 / 100))]
      = [(example_finding ''A'' ''sonar'' (round_double (95 / 100)))\<lparr>also_found_by := [''pr_agent'']\<rparr>]"
proof -
  let ?A = "example_finding ''A'' ''sonar'' (round_double (95 / 100))"
  let ?B = "example_finding ''B'' ''pr_agent'' (Finite (75 / 100))"
  have keys: "dedup_key_of ?B = dedup_key_of ?A"
    by (simp add: example_finding_def dedup_key_of_def)
  have grp: "filter (\<lambda>f. dedup_key_of f = dedup_key_of ?A) [?A, ?B] = [?A, ?B]"
    using keys by simp
  have gt: "float_gt (confidence ?A) (confidence ?B)"
    by (simp add: example_finding_def double_095)
  have out: "filter (\<lambda>f. dedup_key_of f = dedup_key_of ?A) (deduplicate_findings [?A, ?B])
      = [?A\<lparr>also_found_by := [''pr_agent'']\<rparr>]"
    using dedup_tie_break[OF grp] gt by (simp add: example_finding_def double_095)
  have all: "filter (\<lambda>f. dedup_key_of f = dedup_key_of ?A) (deduplicate_findings [?A, ?B])
      = deduplicate_findings [?A, ?B]"
    using dedup_key_set[of "[?A, ?B]"] keys
    by (intro filter_True) (auto simp: image_iff)
  from grp gt out all show ?thesis by simp
qed

text \<open>
  C6, as stated, fails for three findings with one key: of the first two neither is
  returned, and the finding returned does not record the source of the second.
\<close>

theorem dedup_pairs_counterexample:
  "deduplicate_findings
     [example_finding ''a'' ''pr_agent'' (Finite (1 / 2)),
      example_finding ''b'' ''manual'' (Finite (1 / 2)),
      example_finding ''c'' ''sonar'' (round_double (95 / 100))]
   = [(example_finding ''c'' ''sonar'' (round_double (95 / 100)))\<lparr>also_found_by := [''pr_agent'']\<rparr>]
   \<and> dedup_key_of (example_finding ''a'' ''pr_agent'' (Finite (1 / 2)))
       = dedup_key_of (example_finding ''b'' ''manual'' (Finite (1 / 2)))
   \<and> dedup_key_of (example_finding ''b'' ''manual'' (Finite (1 / 2)))
       = dedup_key_of (example_finding ''c'' ''sonar'' (round_double (95 / 100)))
   \<and> source (example_finding ''b'' ''manual'' (Finite (1 / 2))) = ''manual''"
  by (simp add: deduplicate_findings_def dedup_step_def resolve_duplicate_def
      example_finding_def dedup_key_of_def double_095)

text \<open>
  C6, amended. After deduplication no two findings of the returned list share the dedup
  key and the keys returned are the keys of the input; and when exactly two input
  findings share a key, one finding is returned for that key, it is one of the two (up to
  \<open>also_found_by\<close> and \<open>fix\<close>), and its \<open>also_found_by\<close> holds the source of the other.
\<close>

theorem dedup_unique_keys:
  "distinct (map dedup_key_of (deduplicate_findings fs))
   \<and> set (map dedup_key_of (deduplicate_findings fs)) = set (map dedup_key_of fs)
   \<and> (filter (\<lambda>f. dedup_key_of f = k) fs = [a, b] \<longrightarrow>
        (\<exists>w. filter (\<lambda>f. dedup_key_of f = k) (deduplicate_findings fs) = [w]
           \<and> ((w\<lparr>also_found_by := also_found_by a, fix_f := fix_f a\<rparr> = a
                 \<and> source b \<in> set (also_found_by w))
              \<or> (w\<lparr>also_found_by := also_found_by b, fix_f := fix_f b\<rparr> = b
                 \<and> source a \<in> set (also_found_by w)))))"
proof (intro conjI impI)
  show "distinct (map dedup_key_of (deduplicate_findings fs))"
    by (rule dedup_distinct_keys)
  show "set (map dedup_key_of (deduplicate_findings fs)) = set (map dedup_key_of fs)"
    by (rule dedup_key_set)
next
  assume grp: "filter (\<lambda>f. dedup_key_of f = k) fs = [a, b]"
  have "(resolve_duplicate a b)\<lparr>also_found_by := also_found_by a, fix_f := fix_f a\<rparr> = a
          \<and> source b \<in> set (also_found_by (resolve_duplicate a b))
        \<or> (resolve_duplicate a b)\<lparr>also_found_by := also_found_by b, fix_f := fix_f b\<rparr> = b
          \<and> source a \<in> set (also_found_by (resolve_duplicate a b))"
    by (simp add: resolve_duplicate_def)
  with dedup_pair[OF grp]
  show "\<exists>w. filter (\<lambda>f. dedup_key_of f = k) (deduplicate_findings fs) = [w]
           \<and> ((w\<lparr>also_found_by := also_found_by a, fix_f := fix_f a\<rparr> = a
                 \<and> source b \<in> set (also_found_by w))
              \<or> (w\<lparr>also_found_by := also_found_by b, fix_f := fix_f b\<rparr> = b
                 \<and> source a \<in> set (also_found_by w)))"
    by blast
qed

theorem dedup_unique_keys_witness:
  "filter (\<lambda>f. dedup_key_of f = dedup_key_of (example_finding ''A'' ''sonar'' (round_double (95 / 100))))
      [example_finding ''A'' ''sonar'' (round_double (95 / 100)),
       example_finding ''B'' ''pr_agent'' (Finite (75 / 100))]
    = [example_finding ''A'' ''sonar'' (round_double (95 / 100)),
       example_finding ''B'' ''pr_agent'' (Finite (75 / 100))]
   \<and> (\<exists>w. filter (\<lambda>f. dedup_key_of f = dedup_key_of (example_finding ''A'' ''sonar'' (round_double (95 / 100))))
            (deduplicate_findings
               [example_finding ''A'' ''sonar'' (round_double (95 / 100)),
                example_finding ''B'' ''pr_agent'' (Finite (75 / 100))]) = [w])"
proof -
  let ?A = "example_finding ''A'' ''sonar'' (round_double (95 / 100))"
  let ?B = "example_finding ''B'' ''pr_agent'' (Finite (75 / 100))"
  have keys: "dedup_key_of ?B = dedup_key_of ?A"
    by (simp add: example_finding_def dedup_key_of_def)
  have grp: "filter (\<lambda>f. dedup_key_of f = dedup_key_of ?A) [?A, ?B] = [?A, ?B]"
    using keys by simp
  from dedup_unique_keys[of "[?A, ?B]" "dedup_key_of ?A" ?A ?B] grp
  have "\<exists>w. filter (\<lambda>f. dedup_key_of f = dedup_key_of ?A) (deduplicate_findings [?A, ?B]) = [w]"
    by blast
  with grp show ?thesis by blast
qed

section \<open>Normalizers\<close>

lemma raising_Ok: "raising m g = Ok y \<longleftrightarrow> (\<exists>x. m = Inr x \<and> g x = Ok y)"
  by (cases m) (simp_all add: raising_def)

lemma typed_Ok: "typed m g = Ok y \<longleftrightarrow> (\<exists>x. m = Some x \<and> g x = Ok y)"
  by (cases m) (simp_all add: typed_def)

lemma slice_str:
  "py_slice_to n v = Inr t \<Longrightarrow> as_str t = Some s \<Longrightarrow> \<exists>r. v = JStr r \<and> s = take n r"
  by (cases v) auto

lemma as_str_Some: "as_str v = Some s \<longleftrightarrow> v = JStr s"
  by (cases v) auto

lemma as_int_Some: "as_int v = Some i \<longleftrightarrow> v = JInt i"
  by (cases v) auto

lemma sonar_to_unified_fields:
  assumes "sonar_to_unified B issue = Ok f"
  shows "\<exists>d s. issue = JDict d
           \<and> dict_get d ''message'' (JStr ''Sonar finding'') = JStr s \<and> title f = take 100 s
           \<and> JInt (start_line f) = dict_get d ''line'' (dict_get d ''start_line'' (JInt 1))
           \<and> JInt (end_line f) = dict_get d ''end_line'' (JInt (start_line f))"
proof -
  have "\<exists>d. issue = JDict d"
    using assms by (cases issue) (simp_all add: sonar_to_unified_def)
  then obtain d where d: "issue = JDict d" ..
  from assms show ?thesis
    unfolding d
    by (auto simp: sonar_to_unified_def Let_def raising_Ok typed_Ok as_int_Some dest: slice_str)
qed

lemma ai_to_unified_fields:
  assumes "ai_to_unified B issue = Ok f"
  shows "\<exists>d s. issue = JDict d
           \<and> dict_get d ''title'' (dict_get d ''issue_header'' (JStr ''Issue detected'')) = JStr s
           \<and> title f = take 100 s
           \<and> py_int B (dict_get d ''start_line'' (dict_get d ''line'' (JInt 1))) = Inr (start_line f)
           \<and> py_int B (dict_get d ''end_line'' (dict_get d ''start_line'' (dict_get d ''line'' (JInt 1))))
               = Inr (end_line f)"
proof -
  have "\<exists>d. issue = JDict d"
    using assms by (cases issue) (simp_all add: ai_to_unified_def)
  then obtain d where d: "issue = JDict d" ..
  from assms show ?thesis
    unfolding d
    by (auto simp: ai_to_unified_def Let_def raising_Ok typed_Ok dest: slice_str)
qed

lemma normalize_sonar_issue_calls:
  assumes "normalize_sonar_issue B issue = Ok f"
  shows "\<exists>n. sonar_to_unified B (JDict n) = Ok f \<and> map_of n ''end_line'' = None"
proof -
  have "\<exists>d. issue = JDict d"
    using assms by (cases issue) (simp_all add: normalize_sonar_issue_def)
  then obtain d where d: "issue = JDict d" ..
  from assms show ?thesis
    unfolding d
    by (auto simp: normalize_sonar_issue_def Let_def raising_Ok split: if_splits json.splits)
qed

lemma convert_issues_appended:
  "convert_issues conv acc items = acc @ List.map_filter (appended conv) items"
  by (induction items arbitrary: acc)
     (simp_all add: List.map_filter_simps appended_def split: outcome.split)

lemma dict_get_absent: "map_of d k = None \<Longrightarrow> dict_get d k v = v"
  by (simp add: dict_get_def)

lemma dict_get_present: "map_of d k = Some w \<Longrightarrow> dict_get d k v = w"
  by (simp add: dict_get_def)

text \<open>
  C5. The raw static issue of the scenario, sent in a response under any of the three
  keys the batch normalizer reads, is normalized to one finding with category
  \<open>security\<close>, severity \<open>critical\<close>, file \<open>src/a.py\<close>, rule id \<open>S6334\<close> and
  confidence \<open>0.95\<close> (the double nearest to 95/100), and the quality gate of the list holding only this finding is
  \<open>failed\<close>.
\<close>

theorem static_issue_scenario:
  "\<exists>f. sonar_response_to_unified B (JDict [(''vulnerabilities'', JList [example_static_issue])])
          = Inr [Some f]
      \<and> sonar_response_to_unified B (JDict [(''issues'', JList [example_static_issue])])
          = Inr [Some f]
      \<and> sonar_response_to_unified B (JDict [(''findings'', JList [example_static_issue])])
          = Inr [Some f]
      \<and> normalize_sonar_issue B example_static_issue = Ok f
      \<and> category f = ''security'' \<and> severity f = ''critical'' \<and> file_f f = ''src/a.py''
      \<and> start_line f = 10 \<and> sonar_rule_id f = Some ''S6334''
      \<and> confidence f = round_double (95 / 100)
      \<and> determine_quality_gate [f] = ''failed''"
  by (simp add: sonar_response_to_unified_def sonar_issues_def py_or_def dict_get_def
      normalize_sonar_issue_def sonar_to_unified_def raising_def typed_def Let_def
      SONAR_TYPE_MAP_def SONAR_SEVERITY_MAP_def append_note_def last_segment_def
      example_static_issue_def determine_quality_gate_def)

text \<open>
  C7, as stated, fails: the batch normalizers raise when the value found for the issues
  is a number (a TypeError of the \<open>for\<close> loop) and when \<open>review\<close> is not a dictionary
  (an AttributeError of \<open>.get\<close>); both happen outside the \<open>try\<close> of the loop.
\<close>

theorem batch_shape_counterexample:
  "sonar_response_to_unified example_builtins (JDict [(''vulnerabilities'', JInt 1)])
     = Inl TypeError
   \<and> ai_response_to_unified example_builtins (JDict [(''review'', JNull)])
     = Inl AttributeError"
  by code_simp

text \<open>
  C7, amended. For every response dictionary whose issues are iterable (and, for the AI
  response, whose \<open>review\<close> is a dictionary when it is read), the batch normalizers
  return a list without raising: an issue whose conversion raises is skipped, and every
  other issue is converted, in the order of the response.
\<close>

theorem batch_normalizers_skip:
  "(py_iter (sonar_issues d) = Some items \<longrightarrow>
      sonar_response_to_unified B (JDict d)
        = Inr (List.map_filter (appended (normalize_sonar_issue B)) items))
   \<and> (ai_issues d = Inr v \<and> py_iter v = Some items' \<longrightarrow>
      ai_response_to_unified B (JDict d)
        = Inr (List.map_filter (appended (ai_to_unified B)) items'))"
  by (simp add: sonar_response_to_unified_def ai_response_to_unified_def ebind_def
      convert_issues_appended)

theorem batch_normalizers_skip_witness:
  "py_iter (sonar_issues [(''issues'', JList [JInt 3, example_static_issue])])
     = Some [JInt 3, example_static_issue]
   \<and> length (projr (sonar_response_to_unified example_builtins
        (JDict [(''issues'', JList [JInt 3, example_static_issue])]))) = 1
   \<and> ai_issues [(''issues'', JList [JDict [(''title'', JInt 3)], JDict [(''title'', JStr ''x'')]])]
     = Inr (JList [JDict [(''title'', JInt 3)], JDict [(''title'', JStr ''x'')]])
   \<and> length (projr (ai_response_to_unified example_builtins
        (JDict [(''issues'', JList [JDict [(''title'', JInt 3)], JDict [(''title'', JStr ''x'')]])])))
       = 1"
proof -
  let ?ds = "[(''issues'', JList [JInt 3, example_static_issue])]"
  let ?da = "[(''issues'', JList [JDict [(''title'', JInt 3)], JDict [(''title'', JStr ''x'')]])]"
  have s: "py_iter (sonar_issues ?ds) = Some [JInt 3, example_static_issue]"
    by (simp add: sonar_issues_def py_or_def dict_get_def)
  have a: "ai_issues ?da = Inr (JList [JDict [(''title'', JInt 3)], JDict [(''title'', JStr ''x'')]])"
    by (simp add: ai_issues_def dict_get_def)
  have s1: "List.map_filter (appended (normalize_sonar_issue example_builtins))
      [JInt 3, example_static_issue]
      = [the (appended (normalize_sonar_issue example_builtins) example_static_issue)]"
    by code_simp
  have a1: "List.map_filter (appended (ai_to_unified example_builtins))
      [JDict [(''title'', JInt 3)], JDict [(''title'', JStr ''x'')]]
      = [the (appended (ai_to_unified example_builtins) (JDict [(''title'', JStr ''x'')]))]"
    by code_simp
  from batch_normalizers_skip[of ?ds "[JInt 3, example_static_issue]" example_builtins] s s1
  have "length (projr (sonar_response_to_unified example_builtins (JDict ?ds))) = 1"
    by simp
  moreover
  from batch_normalizers_skip[where d = ?da and B = example_builtins
      and v = "JList [JDict [(''title'', JInt 3)], JDict [(''title'', JStr ''x'')]]"
      and items' = "[JDict [(''title'', JInt 3)], JDict [(''title'', JStr ''x'')]]"] a a1
  have "length (projr (ai_response_to_unified example_builtins (JDict ?da))) = 1"
    by simp
  ultimately show ?thesis using s a by simp
qed

text \<open>
  C9, as stated, fails: both normalizers pass a supplied \<open>end_line\<close> on without comparing
  it with the start line.
\<close>

theorem end_line_counterexample:
  "ai_to_unified example_builtins (JDict [(''start_line'', JInt 10), (''end_line'', JInt 3)])
     = Ok \<lparr>id_f = ''ai-'', source = ''pr_agent'', category = ''bug'', severity = ''medium'',
           file_f = [], start_line = 10, end_line = 3, title = ''Issue detected'',
           description = [], code_snippet = [], fix_f = None, sonar_rule_id = None,
           confidence = Finite (75 / 100), tags = [''bug'', ''ai-detected''],
           also_found_by = []\<rparr>
   \<and> sonar_to_unified example_builtins (JDict [(''line'', JInt 10), (''end_line'', JInt 3)])
     = Ok \<lparr>id_f = ''sonar-'', source = ''sonar'', category = ''maintainability'',
           severity = ''high'', file_f = [], start_line = 10, end_line = 3,
           title = ''Sonar finding'', description = [], code_snippet = [], fix_f = None,
           sonar_rule_id = Some ''unknown'', confidence = round_double (95 / 100),
           tags = [''code_smell'', ''unknown''], also_found_by = []\<rparr>"
  by code_simp

text \<open>
  C9, amended. A finding that a normalizer produces from a raw issue with no \<open>end_line\<close>
  has \<open>end_line = start_line\<close>, and so has every finding that the static batch normalizer
  produces from an issue (it does not copy \<open>end_line\<close>); a supplied \<open>end_line\<close> is copied
  by the static normalizer and converted by \<open>int\<close> by the AI normalizer.
\<close>

theorem end_line_default:
  "(sonar_to_unified B (JDict d) = Ok f \<longrightarrow>
      (map_of d ''end_line'' = None \<longrightarrow> end_line f = start_line f)
      \<and> (\<forall>v. map_of d ''end_line'' = Some v \<longrightarrow> v = JInt (end_line f)))
   \<and> (ai_to_unified B (JDict d) = Ok g \<longrightarrow>
      (map_of d ''end_line'' = None \<longrightarrow> end_line g = start_line g)
      \<and> (\<forall>v. map_of d ''end_line'' = Some v \<longrightarrow> py_int B v = Inr (end_line g)))
   \<and> (normalize_sonar_issue B issue = Ok h \<longrightarrow> end_line h = start_line h)"
proof (intro conjI impI allI)
  assume "sonar_to_unified B (JDict d) = Ok f" and "map_of d ''end_line'' = None"
  with sonar_to_unified_fields[of B "JDict d" f]
  show "end_line f = start_line f" by (auto simp: dict_get_absent)
next
  fix v assume "sonar_to_unified B (JDict d) = Ok f" and "map_of d ''end_line'' = Some v"
  with sonar_to_unified_fields[of B "JDict d" f]
  show "v = JInt (end_line f)" by (auto simp: dict_get_present)
next
  assume "ai_to_unified B (JDict d) = Ok g" and "map_of d ''end_line'' = None"
  with ai_to_unified_fields[of B "JDict d" g]
  show "end_line g = start_line g" by (auto simp: dict_get_absent)
next
  fix v assume "ai_to_unified B (JDict d) = Ok g" and "map_of d ''end_line'' = Some v"
  with ai_to_unified_fields[of B "JDict d" g]
  show "py_int B v = Inr (end_line g)" by (auto simp: dict_get_present)
next
  assume "normalize_sonar_issue B issue = Ok h"
  from normalize_sonar_issue_calls[OF this] obtain n
    where n: "sonar_to_unified B (JDict n) = Ok h" "map_of n ''end_line'' = None"
    by blast
  with sonar_to_unified_fields[of B "JDict n" h]
  show "end_line h = start_line h" by (auto simp: dict_get_absent)
qed

theorem end_line_default_witness:
  "(\<exists>f. sonar_to_unified example_builtins (JDict [(''line'', JInt 10)]) = Ok f
        \<and> end_line f = start_line f)
   \<and> (\<exists>f. sonar_to_unified example_builtins (JDict [(''line'', JInt 10), (''end_line'', JInt 12)]) = Ok f
        \<and> end_line f = 12)
   \<and> (\<exists>g. ai_to_unified example_builtins (JDict [(''start_line'', JInt 10)]) = Ok g
        \<and> end_line g = start_line g)
   \<and> (\<exists>g. ai_to_unified example_builtins (JDict [(''start_line'', JInt 10), (''end_line'', JInt 12)]) = Ok g
        \<and> end_line g = 12)
   \<and> (\<exists>h. normalize_sonar_issue example_builtins example_static_issue = Ok h
        \<and> end_line h = start_line h)"
proof -
  let ?d1 = "[(''line'', JInt 10)]"
  let ?d2 = "[(''line'', JInt 10), (''end_line'', JInt 12)]"
  let ?d3 = "[(''start_line'', JInt 10)]"
  let ?d4 = "[(''start_line'', JInt 10), (''end_line'', JInt 12)]"
  have "is_Ok (sonar_to_unified example_builtins (JDict ?d1))" by code_simp
  then obtain f1 where f1: "sonar_to_unified example_builtins (JDict ?d1) = Ok f1"
    by (auto simp: is_Ok_def)
  have "is_Ok (sonar_to_unified example_builtins (JDict ?d2))" by code_simp
  then obtain f2 where f2: "sonar_to_unified example_builtins (JDict ?d2) = Ok f2"
    by (auto simp: is_Ok_def)
  have "is_Ok (ai_to_unified example_builtins (JDict ?d3))" by code_simp
  then obtain g3 where g3: "ai_to_unified example_builtins (JDict ?d3) = Ok g3"
    by (auto simp: is_Ok_def)
  have "is_Ok (ai_to_unified example_builtins (JDict ?d4))" by code_simp
  then obtain g4 where g4: "ai_to_unified example_builtins (JDict ?d4) = Ok g4"
    by (auto simp: is_Ok_def)
  have "is_Ok (normalize_sonar_issue example_builtins example_static_issue)" by code_simp
  then obtain h where h: "normalize_sonar_issue example_builtins example_static_issue = Ok h"
    by (auto simp: is_Ok_def)
  from end_line_default[of example_builtins ?d1 f1] f1
  have a: "end_line f1 = start_line f1" by simp
  from end_line_default[of example_builtins ?d2 f2] f2
  have b: "end_line f2 = 12" by simp
  from end_line_default[of example_builtins ?d3 _ g3] g3
  have c: "end_line g3 = start_line g3" by simp
  from end_line_default[of example_builtins ?d4 _ g4] g4
  have d: "end_line g4 = 12" by simp
  from end_line_default[of example_builtins _ _ _ example_static_issue h] h
  have e: "end_line h = start_line h" by simp
  from f1 f2 g3 g4 h a b c d e show ?thesis by blast
qed

text \<open>
  C10. The title of a finding that a normalizer produces is the first 100 characters of
  the raw message (static) or of the raw title (AI), so it has at most 100 characters.
\<close>

theorem normalized_title_at_most_100:
  "(sonar_to_unified B issue = Ok f \<longrightarrow>
      length (title f) \<le> 100
      \<and> (\<exists>d s. issue = JDict d \<and> dict_get d ''message'' (JStr ''Sonar finding'') = JStr s
             \<and> title f = take 100 s))
   \<and> (ai_to_unified B issue = Ok g \<longrightarrow>
      length (title g) \<le> 100
      \<and> (\<exists>d s. issue = JDict d
             \<and> dict_get d ''title'' (dict_get d ''issue_header'' (JStr ''Issue detected'')) = JStr s
             \<and> title g = take 100 s))
   \<and> (normalize_sonar_issue B issue = Ok h \<longrightarrow> length (title h) \<le> 100)"
proof (intro conjI impI)
  assume "sonar_to_unified B issue = Ok f"
  from sonar_to_unified_fields[OF this]
  show "length (title f) \<le> 100" by auto
next
  assume "sonar_to_unified B issue = Ok f"
  from sonar_to_unified_fields[OF this]
  show "\<exists>d s. issue = JDict d \<and> dict_get d ''message'' (JStr ''Sonar finding'') = JStr s
             \<and> title f = take 100 s" by blast
next
  assume "ai_to_unified B issue = Ok g"
  from ai_to_unified_fields[OF this]
  show "length (title g) \<le> 100" by auto
next
  assume "ai_to_unified B issue = Ok g"
  from ai_to_unified_fields[OF this]
  show "\<exists>d s. issue = JDict d
             \<and> dict_get d ''title'' (dict_get d ''issue_header'' (JStr ''Issue detected'')) = JStr s
             \<and> title g = take 100 s" by blast
next
  assume "normalize_sonar_issue B issue = Ok h"
  from normalize_sonar_issue_calls[OF this] obtain n where "sonar_to_unified B (JDict n) = Ok h"
    by blast
  from sonar_to_unified_fields[OF this]
  show "length (title h) \<le> 100" by auto
qed


theorem normalized_title_at_most_100_witness:
  "(\<exists>f. sonar_to_unified example_builtins (JDict [(''message'', JStr (replicate 150 CHR ''x''))]) = Ok f
        \<and> length (title f) = 100)
   \<and> (\<exists>g. ai_to_unified example_builtins (JDict [(''title'', JStr (replicate 150 CHR ''x''))]) = Ok g
        \<and> length (title g) = 100)
   \<and> (\<exists>h. normalize_sonar_issue example_builtins example_static_issue = Ok h
        \<and> length (title h) \<le> 100)"
proof -
  have "is_Ok (sonar_to_unified example_builtins (JDict [(''message'', JStr (replicate 150 CHR ''x''))]))"
    by code_simp
  then obtain f where f: "sonar_to_unified example_builtins
      (JDict [(''message'', JStr (replicate 150 CHR ''x''))]) = Ok f"
    by (auto simp: is_Ok_def)
  have "is_Ok (ai_to_unified example_builtins (JDict [(''title'', JStr (replicate 150 CHR ''x''))]))"
    by code_simp
  then obtain g where g: "ai_to_unified example_builtins
      (JDict [(''title'', JStr (replicate 150 CHR ''x''))]) = Ok g"
    by (auto simp: is_Ok_def)
  have "is_Ok (normalize_sonar_issue example_builtins example_static_issue)"
    by code_simp
  then obtain h where h: "normalize_sonar_issue example_builtins example_static_issue = Ok h"
    by (auto simp: is_Ok_def)
  from normalized_title_at_most_100[of example_builtins
      "JDict [(''message'', JStr (replicate 150 CHR ''x''))]" f _ g] f
  have tf: "length (title f) = 100" by (auto simp: dict_get_def)
  from normalized_title_at_most_100[of example_builtins
      "JDict [(''title'', JStr (replicate 150 CHR ''x''))]" _ g] g
  have tg: "length (title g) = 100" by (auto simp: dict_get_def)
  from normalized_title_at_most_100[of example_builtins example_static_issue _ _ h] h
  have th: "length (title h) \<le> 100" by blast
  from f g h tf tg th show ?thesis by blast
qed

section \<open>Job store\<close>

lemma round_half_even_le:
  assumes "x \<le> of_int n"
  shows "round_half_even x \<le> n"
proof -
  have f: "\<lfloor>x\<rfloor> \<le> n" using assms by (simp add: floor_le_iff)
  show ?thesis
  proof (cases "x = of_int \<lfloor>x\<rfloor>")
    case True
    then have "x - of_int \<lfloor>x\<rfloor> = 0" by simp
    then show ?thesis using f by (simp add: round_half_even_def Let_def)
  next
    case False
    then have "of_int \<lfloor>x\<rfloor> < x" using of_int_floor_le[of x] by linarith
    with assms have "of_int \<lfloor>x\<rfloor> < (of_int n :: rat)" by linarith
    then have "\<lfloor>x\<rfloor> < n" by simp
    then show ?thesis by (simp add: round_half_even_def Let_def)
  qed
qed

lemma round_half_even_nonneg:
  assumes "0 \<le> x"
  shows "0 \<le> round_half_even x"
proof -
  from assms have "0 \<le> \<lfloor>x\<rfloor>" by simp
  then show ?thesis by (simp add: round_half_even_def Let_def)
qed

lemma floor_log2_le:
  assumes "0 < x" "x \<le> 2 ^ j"
  shows "floor_log2 x \<le> int j"
proof -
  obtain a b where q: "quotient_of x = (a, b)" by (cases "quotient_of x")
  then have b: "0 < b" and x: "x = of_int a / of_int b"
    by (simp_all add: quotient_of_denom_pos quotient_of_div)
  from assms(1) x b have a: "0 < a" by (simp add: zero_less_divide_iff)
  from assms(2) x b have "(of_int a :: rat) \<le> of_int b * 2 ^ j"
    by (simp add: pos_divide_le_eq mult.commute)
  then have "(of_int a :: rat) \<le> of_int (b * 2 ^ j)" by simp
  then have le: "a \<le> b * 2 ^ j" by (simp only: of_int_le_iff)
  have "bitlen a \<le> bitlen (b * 2 ^ j)"
    unfolding bitlen_def using le by (intro of_nat_mono floorlog_mono) simp
  also have "bitlen (b * 2 ^ j) = bitlen b + int j"
    using b by (simp add: bitlen_def nat_mult_distrib nat_power_eq)
  finally have "bitlen a - bitlen b \<le> int j" by simp
  then show ?thesis by (simp add: floor_log2_def q Let_def)
qed

lemma round_double_bounds:
  assumes "0 < x" "x \<le> of_int c" "x \<le> 2 ^ j" "j \<le> 52" "c < 2 ^ 1024"
  shows "\<exists>y. round_double x = Finite y \<and> 0 \<le> y \<and> y \<le> of_int c"
proof -
  define e where "e = max (floor_log2 \<bar>x\<bar> - 52) (- 1074)"
  define n where "n = nat (- e)"
  define m where "m = round_half_even (\<bar>x\<bar> / pow2 e)"
  from assms(1) have ax: "\<bar>x\<bar> = x" by simp
  from floor_log2_le[OF assms(1,3)] assms(4) have "e \<le> 0"
    by (simp add: e_def ax)
  then have p: "pow2 e = 1 / 2 ^ n"
    by (cases "e = 0") (simp_all add: pow2_def n_def)
  have scaled: "\<bar>x\<bar> / pow2 e = x * 2 ^ n" by (simp add: p ax)
  from assms(2) have "x * 2 ^ n \<le> of_int (c * 2 ^ n)" by simp
  then have mle: "m \<le> c * 2 ^ n" unfolding m_def scaled by (rule round_half_even_le)
  from assms(1) have "0 \<le> x * 2 ^ n" by simp
  then have mge: "0 \<le> m" unfolding m_def scaled by (rule round_half_even_nonneg)
  define y where "y = of_int m * pow2 e"
  have y0: "0 \<le> y" using mge by (simp add: y_def p)
  from mle have "(of_int m :: rat) \<le> of_int (c * 2 ^ n)" by (simp only: of_int_le_iff)
  then have "(of_int m :: rat) \<le> of_int c * 2 ^ n" by simp
  then have yc: "y \<le> of_int c" by (simp add: y_def p pos_divide_le_eq)
  from assms(5) have "(of_int c :: rat) < of_int (2 ^ 1024)" by (simp only: of_int_less_iff)
  with yc have fin: "\<not> 2 ^ 1024 \<le> y" by simp
  from assms(1) have "x \<noteq> 0" by simp
  then have "round_double x = Finite y"
    using fin assms(1) unfolding round_double_def Let_def e_def[symmetric] m_def[symmetric] y_def[symmetric]
    by simp
  with y0 yc show ?thesis by blast
qed

lemma percent_of_bounds:
  assumes "0 \<le> p" "p \<le> t" "0 < t"
  shows "\<exists>n. percent_of p t = Inr n \<and> 0 \<le> n \<and> n \<le> 100"
proof -
  have "\<exists>q. round_double (of_int p / of_int t) = Finite q \<and> 0 \<le> q \<and> q \<le> 1"
  proof (cases "p = 0")
    case True
    then show ?thesis by (simp add: round_double_def)
  next
    case False
    with assms have pos: "(0::rat) < of_int p / of_int t" by simp
    from assms have le1: "(of_int p / of_int t :: rat) \<le> 1" by simp
    from round_double_bounds[OF pos, of 1 0] le1 show ?thesis by simp
  qed
  then obtain q where q: "round_double (of_int p / of_int t) = Finite q" "0 \<le> q" "q \<le> 1"
    by blast
  have "\<exists>r. round_double (q * 100) = Finite r \<and> 0 \<le> r \<and> r \<le> 100"
  proof (cases "q = 0")
    case True
    then show ?thesis by (simp add: round_double_def)
  next
    case False
    with q have pos: "0 < q * 100" by simp
    from q have le: "q * 100 \<le> of_int 100" by simp
    from q have le2: "q * 100 \<le> 2 ^ 7" by simp
    from round_double_bounds[OF pos le le2] show ?thesis by simp
  qed
  then obtain r where r: "round_double (q * 100) = Finite r" "0 \<le> r" "r \<le> 100"
    by blast
  from r have "\<lfloor>r\<rfloor> \<le> 100" by (simp add: floor_le_iff)
  moreover from r have "0 \<le> \<lfloor>r\<rfloor>" by simp
  ultimately show ?thesis
    using assms q r by (simp add: percent_of_def int_truediv_def ebind_def)
qed

text \<open>
  C8, as stated, fails: the percentage is not clamped. With 5 processed of a total of 2
  the stored percentage is 250, and with -1 processed of a total of 3 it is -33.
\<close>

theorem progress_unclamped_counterexample:
  "map_option (\<lambda>j. (processed (progress j), total (progress j), percentage (progress j)))
     (snd (update_job_progress ''t1'' ''job-1'' None (Some 5) (Some 2)
             (snd (create_job ''t0'' ''job-1'' Map.empty))) ''job-1'')
   = Some (5, 2, 250)
   \<and> map_option (\<lambda>j. (processed (progress j), total (progress j), percentage (progress j)))
     (snd (update_job_progress ''t1'' ''job-1'' None (Some (- 1)) (Some 3)
             (snd (create_job ''t0'' ''job-1'' Map.empty))) ''job-1'')
   = Some (- 1, 3, - 33)"
  by code_simp

text \<open>
  C8, amended. For every existing job, \<open>update_job_progress\<close> stores the values of
  \<open>processed\<close> and \<open>total\<close> that are supplied; when the stored total is not positive the
  percentage is left as it was; when it is positive the percentage is recomputed as
  \<open>int((processed / total) * 100)\<close>, which is not clamped and lies within 0 and 100
  whenever \<open>0 \<le> processed \<le> total\<close>.
\<close>

theorem update_job_progress_percentage:
  assumes "JOBS job_id = Some j"
      and "update_job_progress now job_id cf pr tot JOBS = (r, JOBS')"
  shows "\<exists>j'. JOBS' job_id = Some j'
           \<and> processed (progress j') = (case pr of Some n \<Rightarrow> n | None \<Rightarrow> processed (progress j))
           \<and> total (progress j') = (case tot of Some n \<Rightarrow> n | None \<Rightarrow> total (progress j))
           \<and> (total (progress j') \<le> 0 \<longrightarrow>
                 r = Inr True \<and> percentage (progress j') = percentage (progress j))
           \<and> (0 < total (progress j') \<and> r = Inr True \<longrightarrow>
                 percent_of (processed (progress j')) (total (progress j'))
                   = Inr (percentage (progress j')))
           \<and> (0 < total (progress j') \<and> 0 \<le> processed (progress j')
                 \<and> processed (progress j') \<le> total (progress j') \<longrightarrow>
                 r = Inr True \<and> 0 \<le> percentage (progress j') \<and> percentage (progress j') \<le> 100)"
proof -
  define p1 where "p1 = (case cf of Some c \<Rightarrow> (progress j)\<lparr>current_file := c\<rparr> | None \<Rightarrow> progress j)"
  define p2 where "p2 = (case pr of Some n \<Rightarrow> p1\<lparr>processed := n\<rparr> | None \<Rightarrow> p1)"
  define p where "p = (case tot of Some n \<Rightarrow> p2\<lparr>total := n\<rparr> | None \<Rightarrow> p2)"
  have pp: "processed p = (case pr of Some n \<Rightarrow> n | None \<Rightarrow> processed (progress j))"
    by (simp add: p_def p2_def p1_def split: option.split)
  have pt: "total p = (case tot of Some n \<Rightarrow> n | None \<Rightarrow> total (progress j))"
    by (simp add: p_def p2_def p1_def split: option.split)
  have pc: "percentage p = percentage (progress j)"
    by (simp add: p_def p2_def p1_def split: option.split)
  have run: "update_job_progress now job_id cf pr tot JOBS =
      (if total p > 0
       then (case percent_of (processed p) (total p) of
               Inl e \<Rightarrow> (Inl e, JOBS(job_id \<mapsto> j\<lparr>progress := p\<rparr>))
             | Inr n \<Rightarrow> (Inr True,
                 JOBS(job_id \<mapsto> j\<lparr>progress := p\<lparr>percentage := n\<rparr>, updated_at := now\<rparr>)))
       else (Inr True, JOBS(job_id \<mapsto> j\<lparr>progress := p, updated_at := now\<rparr>)))"
    unfolding update_job_progress_def Let_def p_def p2_def p1_def assms(1) option.case ..
  show ?thesis
  proof (cases "total p > 0")
    case False
    with run assms(2) have "r = Inr True" "JOBS' = JOBS(job_id \<mapsto> j\<lparr>progress := p, updated_at := now\<rparr>)"
      by simp_all
    with False pp pt pc show ?thesis by simp
  next
    case True
    show ?thesis
    proof (cases "percent_of (processed p) (total p)")
      case (Inl e)
      with run True assms(2) have r: "r = Inl e" and J: "JOBS' = JOBS(job_id \<mapsto> j\<lparr>progress := p\<rparr>)"
        by simp_all
      have "\<not> (0 \<le> processed p \<and> processed p \<le> total p)"
        using percent_of_bounds[of "processed p" "total p"] True Inl by auto
      with r J True pp pt show ?thesis by auto
    next
      case (Inr n)
      with run True assms(2) have r: "r = Inr True"
        and J: "JOBS' = JOBS(job_id \<mapsto> j\<lparr>progress := p\<lparr>percentage := n\<rparr>, updated_at := now\<rparr>)"
        by simp_all
      have "0 \<le> processed p \<and> processed p \<le> total p \<longrightarrow> 0 \<le> n \<and> n \<le> 100"
        using percent_of_bounds[of "processed p" "total p"] True Inr by auto
      with r J True pp pt Inr show ?thesis by auto
    qed
  qed
qed

theorem update_job_progress_percentage_witness:
  "snd (create_job ''t0'' ''job-1'' Map.empty) ''job-1'' \<noteq> None
   \<and> map_option (\<lambda>j. (processed (progress j), total (progress j), percentage (progress j)))
       (snd (update_job_progress ''t1'' ''job-1'' None (Some 29) (Some 100)
               (snd (create_job ''t0'' ''job-1'' Map.empty))) ''job-1'')
     = Some (29, 100, 28)
   \<and> 0 \<le> (28::int) \<and> (28::int) \<le> 100"
proof -
  let ?J = "snd (create_job ''t0'' ''job-1'' Map.empty)"
  let ?U = "update_job_progress ''t1'' ''job-1'' None (Some 29) (Some 100) ?J"
  obtain j where j: "?J ''job-1'' = Some j" by (simp add: create_job_def Let_def)
  have u: "?U = (fst ?U, snd ?U)" by simp
  from update_job_progress_percentage[where JOBS = ?J and job_id = "''job-1''" and j = j
      and now = "''t1''" and cf = None and pr = "Some 29" and tot = "Some 100"
      and r = "fst ?U" and JOBS' = "snd ?U", OF j u]
  obtain j' where j': "snd ?U ''job-1'' = Some j'" "processed (progress j') = 29"
    "total (progress j') = 100" "0 \<le> percentage (progress j')" "percentage (progress j') \<le> 100"
    by auto
  have v: "map_option (\<lambda>j. (processed (progress j), total (progress j), percentage (progress j)))
       (snd ?U ''job-1'') = Some (29, 100, 28)"
    by code_simp
  from j v j' show ?thesis by simp
qed

text \<open>
  C3, as stated, fails: no function of the job store reads the status before it writes.
  Cancelling a completed job sets its status to \<open>cancelled\<close> and appends a log message,
  and \<open>update_job_status\<close> takes a completed job back to \<open>processing\<close>.
\<close>

theorem cancel_terminal_counterexample:
  "map_option status (example_completed_jobs ''job-1'') = Some ''completed''
   \<and> map_option status (snd (cancel_job ''t3'' ''job-1'' example_completed_jobs) ''job-1'')
       = Some ''cancelled''
   \<and> map_option logs (snd (cancel_job ''t3'' ''job-1'' example_completed_jobs) ''job-1'')
       = Some [''Job completed successfully.'', ''Job Cancellation Requested by User.'']
   \<and> map_option status
        (snd (update_job_status ''t3'' ''job-1'' ''processing'' example_completed_jobs) ''job-1'')
       = Some ''processing''"
  by code_simp

text \<open>
  C3, amended. The job store does not protect a terminal job: \<open>cancel_job\<close> on an
  existing job, whatever its status, sets the status to \<open>cancelled\<close>, appends one log
  message and sets \<open>updated_at\<close>, changing nothing else, and \<open>update_job_status\<close> sets
  the status it is given; so cancelling leaves the status unchanged exactly on a job
  that is already cancelled. On an unknown id \<open>cancel_job\<close> returns \<open>False\<close> and
  changes nothing. The other update operations (\<open>update_job_log\<close>,
  \<open>update_job_result\<close>, \<open>complete_job\<close>, \<open>fail_job\<close>) write to an existing job
  whatever its status as well.
\<close>

theorem cancel_job_effect:
  "(JOBS job_id = None \<longrightarrow> cancel_job now job_id JOBS = (False, JOBS))
   \<and> (JOBS job_id = Some j \<longrightarrow>
        cancel_job now job_id JOBS =
          (True, JOBS(job_id \<mapsto> j\<lparr>status := ''cancelled'',
                                  logs := logs j @ [''Job Cancellation Requested by User.''],
                                  updated_at := now\<rparr>)))
   \<and> (JOBS job_id = Some j \<and> status j = ''cancelled'' \<longrightarrow>
        map_option status (snd (cancel_job now job_id JOBS) job_id) = Some (status j))
   \<and> (JOBS job_id = Some j \<longrightarrow>
        update_job_status now job_id s JOBS
          = (True, JOBS(job_id \<mapsto> j\<lparr>status := s, updated_at := now\<rparr>)))
   \<and> (JOBS job_id = Some j \<longrightarrow>
        update_job_log now job_id m JOBS
          = (True, JOBS(job_id \<mapsto> j\<lparr>logs := logs j @ [m], updated_at := now\<rparr>)))
   \<and> (JOBS job_id = Some j \<longrightarrow>
        update_job_result now job_id res JOBS
          = (True, JOBS(job_id \<mapsto> j\<lparr>result := res, updated_at := now\<rparr>)))
   \<and> (JOBS job_id = Some j \<longrightarrow>
        complete_job now now_log job_id res JOBS
          = (True, JOBS(job_id \<mapsto> j\<lparr>status := ''completed'',
                                  logs := logs j @ [''Job completed successfully.''],
                                  result := res, updated_at := now_log\<rparr>)))
   \<and> (JOBS job_id = Some j \<longrightarrow>
        fail_job now now_log job_id err JOBS
          = (True, JOBS(job_id \<mapsto> j\<lparr>status := ''failed'',
                                  logs := logs j @ [''Job failed: '' @ err],
                                  result := AList.update ''error'' (JStr err) (result j),
                                  updated_at := now_log\<rparr>)))"
  by (auto simp: cancel_job_def update_job_log_def update_job_status_def
      update_job_result_def complete_job_def fail_job_def)

theorem cancel_job_effect_witness:
  "example_completed_jobs ''job-2'' = None
   \<and> cancel_job ''t3'' ''job-2'' example_completed_jobs = (False, example_completed_jobs)
   \<and> example_completed_jobs ''job-1'' \<noteq> None
   \<and> map_option status (snd (cancel_job ''t3'' ''job-1'' example_completed_jobs) ''job-1'')
       = Some ''cancelled''
   \<and> map_option status
        (snd (cancel_job ''t4'' ''job-1'' (snd (cancel_job ''t3'' ''job-1'' example_completed_jobs)))
           ''job-1'')
       = Some ''cancelled''"
proof -
  have none: "example_completed_jobs ''job-2'' = None"
    by (simp add: example_completed_jobs_def complete_job_def create_job_def update_job_log_def
        Let_def)
  obtain j where j: "example_completed_jobs ''job-1'' = Some j"
    by (simp add: example_completed_jobs_def complete_job_def create_job_def update_job_log_def
        Let_def)
  from cancel_job_effect[of example_completed_jobs "''job-2''" "''t3''"] none
  have a: "cancel_job ''t3'' ''job-2'' example_completed_jobs = (False, example_completed_jobs)"
    by simp
  from cancel_job_effect[of example_completed_jobs "''job-1''" "''t3''" j] j
  have b: "cancel_job ''t3'' ''job-1'' example_completed_jobs =
      (True, example_completed_jobs(''job-1'' \<mapsto> j\<lparr>status := ''cancelled'',
          logs := logs j @ [''Job Cancellation Requested by User.''], updated_at := ''t3''\<rparr>))"
    by simp
  let ?J1 = "snd (cancel_job ''t3'' ''job-1'' example_completed_jobs)"
  let ?j1 = "j\<lparr>status := ''cancelled'',
          logs := logs j @ [''Job Cancellation Requested by User.''], updated_at := ''t3''\<rparr>"
  from b have j1: "?J1 ''job-1'' = Some ?j1" by simp
  from cancel_job_effect[of ?J1 "''job-1''" "''t4''" ?j1] j1
  have c: "map_option status (snd (cancel_job ''t4'' ''job-1'' ?J1) ''job-1'') = Some ''cancelled''"
    by simp
  from none a j b c show ?thesis by simp
qed

section \<open>Orchestrator\<close>

lemma update_fresh: "k \<notin> fst ` set al \<Longrightarrow> AList.update k v al = al @ [(k, v)]"
  by (induction al) auto

lemma update_set_subset: "set (AList.update k v al) \<subseteq> insert (k, v) (set al)"
  by (induction al) auto

lemma foldl_dedup_fresh:
  "distinct (map fst seen @ map dedup_key_of fs)
   \<Longrightarrow> foldl dedup_step seen fs = seen @ map (\<lambda>f. (dedup_key_of f, f)) fs"
proof (induction fs arbitrary: seen)
  case Nil
  then show ?case by simp
next
  case (Cons f fs)
  from Cons.prems have fresh: "dedup_key_of f \<notin> fst ` set seen" by auto
  then have none: "map_of seen (dedup_key_of f) = None" by (simp add: map_of_eq_None_iff)
  have step: "dedup_step seen f = seen @ [(dedup_key_of f, f)]"
    by (simp add: dedup_step_def none update_fresh[OF fresh])
  from Cons.prems have "distinct (map fst (seen @ [(dedup_key_of f, f)]) @ map dedup_key_of fs)"
    by auto
  from Cons.IH[OF this] show ?case by (simp add: step)
qed

lemma dedup_distinct_id:
  assumes "distinct (map dedup_key_of fs)"
  shows "deduplicate_findings fs = fs"
proof -
  from assms have "distinct (map fst [] @ map dedup_key_of fs)" by simp
  from foldl_dedup_fresh[OF this] show ?thesis
    by (simp add: deduplicate_findings_def comp_def)
qed

lemma core_of_resolve:
  "core_of (resolve_duplicate e f) = core_of e \<or> core_of (resolve_duplicate e f) = core_of f"
  by (simp add: resolve_duplicate_def core_of_def)

lemma dedup_step_origin:
  assumes "core_of ` snd ` set seen \<subseteq> S" "core_of f \<in> S"
  shows "core_of ` snd ` set (dedup_step seen f) \<subseteq> S"
proof -
  obtain v where v: "core_of v \<in> S"
    and sub: "set (dedup_step seen f) \<subseteq> insert (dedup_key_of f, v) (set seen)"
  proof (cases "map_of seen (dedup_key_of f)")
    case None
    then have "set (dedup_step seen f) \<subseteq> insert (dedup_key_of f, f) (set seen)"
      by (simp add: dedup_step_def update_set_subset)
    with assms(2) that show ?thesis by blast
  next
    case (Some e)
    then have "(dedup_key_of f, e) \<in> set seen" by (rule map_of_SomeD)
    then have "core_of (snd (dedup_key_of f, e)) \<in> core_of ` snd ` set seen"
      by (intro imageI)
    with assms(1) have "core_of e \<in> S" by auto
    with core_of_resolve[of e f] assms(2) have r: "core_of (resolve_duplicate e f) \<in> S" by auto
    have "set (dedup_step seen f) \<subseteq> insert (dedup_key_of f, resolve_duplicate e f) (set seen)"
      using Some by (simp add: dedup_step_def update_set_subset)
    with r that show ?thesis by blast
  qed
  from sub have "core_of ` snd ` set (dedup_step seen f)
      \<subseteq> core_of ` snd ` insert (dedup_key_of f, v) (set seen)"
    by (intro image_mono)
  also have "\<dots> \<subseteq> S" using assms(1) v by simp
  finally show ?thesis .
qed

lemma foldl_dedup_origin:
  "core_of ` snd ` set seen \<subseteq> S \<Longrightarrow> core_of ` set fs \<subseteq> S
   \<Longrightarrow> core_of ` snd ` set (foldl dedup_step seen fs) \<subseteq> S"
proof (induction fs arbitrary: seen)
  case Nil
  then show ?case by simp
next
  case (Cons f fs)
  from Cons.prems have "core_of ` snd ` set (dedup_step seen f) \<subseteq> S"
    by (intro dedup_step_origin) simp_all
  moreover from Cons.prems have "core_of ` set fs \<subseteq> S" by simp
  ultimately show ?case using Cons.IH by simp
qed

lemma dedup_origin: "core_of ` set (deduplicate_findings fs) \<subseteq> core_of ` set fs"
  using foldl_dedup_origin[of "[]" "core_of ` set fs" fs]
  by (simp add: deduplicate_findings_def image_image)

lemma map_snd_zip_upt: "map snd (zip [0 ..< length xs] xs) = xs"
  by (simp add: map_snd_zip)

lemma generate_missing_fixes_core:
  "map core_of (generate_missing_fixes gen fs) =
     (if filter (\<lambda>f. fix_f f = None) fs = [] then map core_of fs
      else map core_of (filter (\<lambda>f. fix_f f \<noteq> None) fs) @ map core_of (filter (\<lambda>f. fix_f f = None) fs))"
proof -
  let ?needs = "filter (\<lambda>f. fix_f f = None) fs"
  let ?g = "\<lambda>(i, f). case gen i f of Some fx \<Rightarrow> f\<lparr>fix_f := Some fx\<rparr> | None \<Rightarrow> f"
  have "map core_of (map ?g (zip [0 ..< length ?needs] ?needs))
      = map (core_of \<circ> snd) (zip [0 ..< length ?needs] ?needs)"
    by (auto simp: core_of_def split: option.split)
  also have "\<dots> = map core_of ?needs"
    using map_snd_zip_upt[of ?needs] by (metis map_map)
  finally show ?thesis
    by (simp add: generate_missing_fixes_def Let_def)
qed

lemma generate_missing_fixes_core_set:
  "core_of ` set (generate_missing_fixes gen fs) = core_of ` set fs"
proof -
  have part: "set (filter (\<lambda>f. fix_f f \<noteq> None) fs) \<union> set (filter (\<lambda>f. fix_f f = None) fs) = set fs"
    by auto
  have "set (map core_of (generate_missing_fixes gen fs)) = set (map core_of fs)"
  proof (cases "filter (\<lambda>f. fix_f f = None) fs = []")
    case True
    then show ?thesis by (simp add: generate_missing_fixes_core)
  next
    case False
    then have "set (map core_of (generate_missing_fixes gen fs))
        = core_of ` (set (filter (\<lambda>f. fix_f f \<noteq> None) fs) \<union> set (filter (\<lambda>f. fix_f f = None) fs))"
      by (simp only: generate_missing_fixes_core if_False set_append set_map image_Un)
    then show ?thesis by (simp only: part set_map)
  qed
  then show ?thesis by simp
qed

lemma dedup_key_core: "dedup_key_of (core_of f) = dedup_key_of f"
  by (simp add: core_of_def dedup_key_of_def)

lemma key_image_core: "dedup_key_of ` set xs = dedup_key_of ` (core_of ` set xs)"
  by (simp add: image_image dedup_key_core)

text \<open>
  C4. When one analyzer task raises or times out and the other returns the findings
  \<open>fs\<close>, \<open>analyze\<close> returns the result it returns when the failed task had returned the
  empty list: its findings are \<open>fs\<close> after deduplication and the fix pass. Each of them is
  a finding of \<open>fs\<close> (up to \<open>also_found_by\<close> and \<open>fix\<close>), every dedup key of \<open>fs\<close> is
  reported, and when no two findings of \<open>fs\<close> share a key the findings reported are those
  of \<open>fs\<close> after the fix pass alone.
\<close>

theorem analyze_branch_isolation:
  assumes "failed = Failed e \<or> failed = TimedOut"
  shows "analyze cg (Returned fs) failed gen t = analyze cg (Returned fs) (Returned []) gen t
       \<and> analyze cg failed (Returned fs) gen t = analyze cg (Returned []) (Returned fs) gen t
       \<and> findings (analyze cg (Returned fs) failed gen t)
           = generate_missing_fixes gen (deduplicate_findings fs)
       \<and> findings (analyze cg failed (Returned fs) gen t)
           = generate_missing_fixes gen (deduplicate_findings fs)
       \<and> core_of ` set (generate_missing_fixes gen (deduplicate_findings fs)) \<subseteq> core_of ` set fs
       \<and> dedup_key_of ` set (generate_missing_fixes gen (deduplicate_findings fs))
           = dedup_key_of ` set fs
       \<and> (distinct (map dedup_key_of fs) \<longrightarrow>
            findings (analyze cg (Returned fs) failed gen t) = generate_missing_fixes gen fs
            \<and> findings (analyze cg failed (Returned fs) gen t) = generate_missing_fixes gen fs
            \<and> core_of ` set (generate_missing_fixes gen fs) = core_of ` set fs)"
proof -
  have run: "run_parallel_analysis (Returned fs) failed = (fs, [])"
      "run_parallel_analysis failed (Returned fs) = ([], fs)"
    using assms by (auto simp: run_parallel_analysis_def)
  have run0: "run_parallel_analysis (Returned fs) (Returned []) = (fs, [])"
      "run_parallel_analysis (Returned []) (Returned fs) = ([], fs)"
    by (simp_all add: run_parallel_analysis_def)
  have a: "analyze cg (Returned fs) failed gen t = analyze cg (Returned fs) (Returned []) gen t"
    by (simp add: analyze_def run run0)
  have b: "analyze cg failed (Returned fs) gen t = analyze cg (Returned []) (Returned fs) gen t"
    by (simp add: analyze_def run run0)
  have c: "findings (analyze cg (Returned fs) failed gen t)
      = generate_missing_fixes gen (deduplicate_findings fs)"
    by (simp add: analyze_def run merge_findings_def Let_def)
  have d: "findings (analyze cg failed (Returned fs) gen t)
      = generate_missing_fixes gen (deduplicate_findings fs)"
    by (simp add: analyze_def run merge_findings_def Let_def)
  have e: "core_of ` set (generate_missing_fixes gen (deduplicate_findings fs)) \<subseteq> core_of ` set fs"
    unfolding generate_missing_fixes_core_set by (rule dedup_origin)
  have "dedup_key_of ` set (generate_missing_fixes gen (deduplicate_findings fs))
      = dedup_key_of ` set (deduplicate_findings fs)"
    unfolding key_image_core[of "generate_missing_fixes gen (deduplicate_findings fs)"]
      key_image_core[of "deduplicate_findings fs"] generate_missing_fixes_core_set ..
  also have "\<dots> = dedup_key_of ` set fs"
    using dedup_key_set[of fs] by simp
  finally have f: "dedup_key_of ` set (generate_missing_fixes gen (deduplicate_findings fs))
      = dedup_key_of ` set fs" .
  have g: "distinct (map dedup_key_of fs) \<longrightarrow>
            findings (analyze cg (Returned fs) failed gen t) = generate_missing_fixes gen fs
            \<and> findings (analyze cg failed (Returned fs) gen t) = generate_missing_fixes gen fs
            \<and> core_of ` set (generate_missing_fixes gen fs) = core_of ` set fs"
    using c d by (simp add: dedup_distinct_id generate_missing_fixes_core_set)
  from a b c d e f g show ?thesis by blast
qed

theorem analyze_branch_isolation_witness:
  "findings (analyze () (Returned [example_finding ''A'' ''pr_agent'' (Finite (75 / 100))])
       TimedOut (\<lambda>i f. None) 0)
     = [example_finding ''A'' ''pr_agent'' (Finite (75 / 100))]
   \<and> findings (analyze () (Failed ValueError)
       (Returned [example_finding ''S'' ''sonar'' (round_double (95 / 100))]) (\<lambda>i f. None) 0)
     = [example_finding ''S'' ''sonar'' (round_double (95 / 100))]"
proof -
  let ?A = "example_finding ''A'' ''pr_agent'' (Finite (75 / 100))"
  let ?S = "example_finding ''S'' ''sonar'' (round_double (95 / 100))"
  have g: "generate_missing_fixes (\<lambda>i f. None) [?A] = [?A]"
      "generate_missing_fixes (\<lambda>i f. None) [?S] = [?S]"
    by (simp_all add: generate_missing_fixes_def example_finding_def)
  have dd: "deduplicate_findings [?A] = [?A]" "deduplicate_findings [?S] = [?S]"
    by (simp_all add: deduplicate_findings_def dedup_step_def)
  from analyze_branch_isolation[of TimedOut _ "()" "[?A]" "\<lambda>i f. None" 0]
  have "findings (analyze () (Returned [?A]) TimedOut (\<lambda>i f. None) 0)
      = generate_missing_fixes (\<lambda>i f. None) (deduplicate_findings [?A])"
    by blast
  then have a: "findings (analyze () (Returned [?A]) TimedOut (\<lambda>i f. None) 0) = [?A]"
    by (simp only: g dd)
  from analyze_branch_isolation[of "Failed ValueError" ValueError "()" "[?S]" "\<lambda>i f. None" 0]
  have "findings (analyze () (Failed ValueError) (Returned [?S]) (\<lambda>i f. None) 0)
      = generate_missing_fixes (\<lambda>i f. None) (deduplicate_findings [?S])"
    by blast
  then have b: "findings (analyze () (Failed ValueError) (Returned [?S]) (\<lambda>i f. None) 0) = [?S]"
    by (simp only: g dd)
  from a b show ?thesis by simp
qed

end
